theory Spec2Isabelle
  imports Main "HOL-Library.Char_ord" "HOL-Library.List_Lexorder" "HOL-Library.Sublist"
    "HOL-Library.Multiset"
begin

section \<open>Python strings\<close>

text \<open>
  A Python \<open>str\<close> is modelled as a \<^typ>\<open>string\<close>, one \<^typ>\<open>char\<close> for each code point,
  so the model covers the code points U+0000 to U+00FF. The character classes below are
  the ones of Python's \<open>str\<close> methods and of the \<open>re\<close> module on that range.
\<close>

text \<open>
  The texts the program shows are Chinese literals, outside that range: each one is a
  constructor of \<open>message\<close>, named in the comment after it, and \<open>Str\<close> is a text made
  of characters of the model.
\<close>

datatype message =
    Str string
  | MsgQueued            \<comment> \<open>the literal of \<open>download_start\<close>\<close>
  | MsgPreparing         \<comment> \<open>the literal of \<open>_run_download_job\<close> before the download\<close>
  | MsgDownloading       \<comment> \<open>the literal of the hook without a percent string\<close>
  | MsgMerging           \<comment> \<open>the literal of the hook on a finished event\<close>
  | MsgDone              \<comment> \<open>the literal of a job that is done\<close>
  | MsgNoVideo           \<comment> \<open>no video file was produced\<close>
  | MsgNoSubs            \<comment> \<open>no subtitle file was produced\<close>
  | MsgPageLoad message  \<comment> \<open>the page could not be loaded, followed by the text of the cause\<close>
  | MsgNoLink            \<comment> \<open>no video link could be parsed from the page\<close>
  | MsgNoFiles           \<comment> \<open>no file was produced\<close>
  | MsgNoInfo            \<comment> \<open>no video information was obtained\<close>
  | MsgJobNotFound       \<comment> \<open>detail of the 404 for an unknown job\<close>
  | MsgForbidden         \<comment> \<open>detail of the 403\<close>
  | MsgNotFinished       \<comment> \<open>detail of the 400 for a job that is not done\<close>
  | MsgExpired           \<comment> \<open>detail of the 404 for a result that is no longer in memory\<close>
  | MsgFileMissing       \<comment> \<open>detail of the 404 for a file that does not exist\<close>

text \<open>
  Exceptions. \<open>ValueError\<close> carries its text; \<open>DownloadCancelled\<close> is the class of the
  program, raised without arguments; \<open>OtherError\<close> is any other exception, with its text.
  \<open>exc_str\<close> is \<open>str(e)\<close>; the texts of \<open>KeyError\<close> and \<open>TypeError\<close>, which the
  program never shows, are left empty.
\<close>

datatype py_error = ValueError message | IndexError | KeyError | TypeError | DownloadCancelled
  | OtherError message

fun exc_str :: "py_error \<Rightarrow> message" where
  "exc_str (ValueError m) = m"
| "exc_str IndexError = Str ''list index out of range''"
| "exc_str KeyError = Str []"
| "exc_str TypeError = Str []"
| "exc_str DownloadCancelled = Str []"
| "exc_str (OtherError m) = m"

definition ord :: "char \<Rightarrow> nat" where
  "ord c = of_char c"

definition isspace :: "char \<Rightarrow> bool" where
  "isspace c = ((9 \<le> ord c \<and> ord c \<le> 13) \<or> (28 \<le> ord c \<and> ord c \<le> 32)
     \<or> ord c = 133 \<or> ord c = 160)"

definition isdecimal :: "char \<Rightarrow> bool" where
  "isdecimal c = (48 \<le> ord c \<and> ord c \<le> 57)"

definition isdigit :: "char \<Rightarrow> bool" where
  "isdigit c = (isdecimal c \<or> ord c = 178 \<or> ord c = 179 \<or> ord c = 185)"

definition isalnum :: "char \<Rightarrow> bool" where
  "isalnum c = (isdecimal c \<or> (65 \<le> ord c \<and> ord c \<le> 90) \<or> (97 \<le> ord c \<and> ord c \<le> 122)
     \<or> ord c = 170 \<or> ord c = 178 \<or> ord c = 179 \<or> ord c = 181 \<or> ord c = 185 \<or> ord c = 186
     \<or> (188 \<le> ord c \<and> ord c \<le> 190) \<or> (192 \<le> ord c \<and> ord c \<le> 214)
     \<or> (216 \<le> ord c \<and> ord c \<le> 246) \<or> 248 \<le> ord c)"

text \<open>The class \<open>\w\<close> of \<open>re\<close> on a \<open>str\<close> pattern.\<close>

definition isword :: "char \<Rightarrow> bool" where
  "isword c = (isalnum c \<or> c = CHR ''_'')"

definition lower_char :: "char \<Rightarrow> char" where
  "lower_char c = (if (65 \<le> ord c \<and> ord c \<le> 90) \<or> (192 \<le> ord c \<and> ord c \<le> 222 \<and> ord c \<noteq> 215)
     then char_of (ord c + 32) else c)"

definition lower :: "string \<Rightarrow> string" where
  "lower s = map lower_char s"

definition lstrip_chars :: "(char \<Rightarrow> bool) \<Rightarrow> string \<Rightarrow> string" where
  "lstrip_chars p s = dropWhile p s"

definition rstrip_chars :: "(char \<Rightarrow> bool) \<Rightarrow> string \<Rightarrow> string" where
  "rstrip_chars p s = rev (dropWhile p (rev s))"

definition strip_chars :: "(char \<Rightarrow> bool) \<Rightarrow> string \<Rightarrow> string" where
  "strip_chars p s = rstrip_chars p (lstrip_chars p s)"

text \<open>\<open>s.strip()\<close>, without an argument, strips white space.\<close>

definition strip :: "string \<Rightarrow> string" where
  "strip s = strip_chars isspace s"

definition startswith :: "string \<Rightarrow> string \<Rightarrow> bool" where
  "startswith s p = prefix p s"

definition endswith :: "string \<Rightarrow> string \<Rightarrow> bool" where
  "endswith s p = suffix p s"

text \<open>
  \<open>s.split(sep)\<close> for a separator that is not empty (Python raises \<open>ValueError\<close> on an
  empty one; every separator of this program is a literal): the occurrences of \<open>sep\<close> are
  found from the left and do not overlap. \<open>acc\<close> holds the current piece, reversed.
\<close>

function split_acc :: "string \<Rightarrow> string \<Rightarrow> string \<Rightarrow> string list" where
  "split_acc sep acc [] = [rev acc]"
| "split_acc sep acc (c # cs) =
     (if sep \<noteq> [] \<and> prefix sep (c # cs)
      then rev acc # split_acc sep [] (drop (length sep) (c # cs))
      else split_acc sep (c # acc) cs)"
  by pat_completeness auto
termination
  by (relation "measure (\<lambda>(sep, acc, s). length s)") auto

definition split :: "string \<Rightarrow> string \<Rightarrow> string list" where
  "split s sep = split_acc sep [] s"

text \<open>\<open>sep.join(xs)\<close>.\<close>

fun join :: "string \<Rightarrow> string list \<Rightarrow> string" where
  "join sep [] = []"
| "join sep [x] = x"
| "join sep (x # y # ys) = x @ sep @ join sep (y # ys)"

text \<open>
  \<open>xs.index(x)\<close>: the first position of \<open>x\<close>, \<open>ValueError\<close> when there is none (the
  program catches that error wherever it can occur, and its text is abbreviated here).
\<close>

fun index_from :: "nat \<Rightarrow> 'a list \<Rightarrow> 'a \<Rightarrow> nat option" where
  "index_from i [] x = None"
| "index_from i (y # ys) x = (if y = x then Some i else index_from (Suc i) ys x)"

definition index :: "'a list \<Rightarrow> 'a \<Rightarrow> py_error + nat" where
  "index xs x = (case index_from 0 xs x of None \<Rightarrow> Inl (ValueError (Str ''x not in list'')) | Some i \<Rightarrow> Inr i)"

text \<open>
  \<open>xs[i]\<close> with Python's negative positions, \<open>IndexError\<close> out of range, and the slice
  \<open>xs[i:j]\<close>, which clips its bounds and never raises.
\<close>

definition getitem :: "'a list \<Rightarrow> int \<Rightarrow> py_error + 'a" where
  "getitem xs i =
     (if 0 \<le> i \<and> i < int (length xs) then Inr (xs ! nat i)
      else if i < 0 \<and> - i \<le> int (length xs) then Inr (xs ! nat (int (length xs) + i))
      else Inl IndexError)"

definition clip :: "nat \<Rightarrow> int \<Rightarrow> nat" where
  "clip n i = (if i < 0 then nat (max 0 (int n + i)) else min n (nat i))"

definition slice :: "'a list \<Rightarrow> int \<Rightarrow> int \<Rightarrow> 'a list" where
  "slice xs i j = take (clip (length xs) j - clip (length xs) i) (drop (clip (length xs) i) xs)"

text \<open>The truth value of an optional string: \<open>None\<close> and the empty string are false.\<close>

fun truthy :: "string option \<Rightarrow> bool" where
  "truthy None = False"
| "truthy (Some s) = (s \<noteq> [])"

section \<open>Regular expressions\<close>

text \<open>
  The patterns of the program use literals, character classes, sequence, alternation,
  the greedy repetitions \<open>*\<close>, \<open>+\<close> and \<open>?\<close>, capturing groups and \<open>\b\<close>. The matcher is a
  backtracking one, as \<open>re\<close> is: it returns the first match in the order of priority
  (the left alternative first, the longest repetition first). Its continuation is a stack of
  frames. A repetition whose body matched the empty string is not iterated again.
\<close>

datatype regex =
    Sym "char \<Rightarrow> bool"
  | Eps
  | Seq regex regex
  | Alt regex regex
  | Star regex
  | Group nat regex
  | WordB

datatype frame = R regex | StarK regex nat | GroupEndK nat nat

type_synonym groups = "(nat \<times> string) list"

fun weight :: "regex \<Rightarrow> nat" where
  "weight (Sym p) = 1"
| "weight Eps = 1"
| "weight (Seq a b) = weight a + weight b + 1"
| "weight (Alt a b) = weight a + weight b + 1"
| "weight (Star r) = weight r + 2"
| "weight (Group i r) = weight r + 2"
| "weight WordB = 1"

text \<open>
  The weight of a frame when \<open>l\<close> characters are left: a repetition frame that will
  iterate again counts for the repetition it unfolds to.
\<close>

fun fweight :: "nat \<Rightarrow> frame \<Rightarrow> nat" where
  "fweight l (R r) = weight r"
| "fweight l (StarK r n) = (if l < n then weight r + 3 else 1)"
| "fweight l (GroupEndK i n) = 1"

text \<open>
  \<open>\b\<close> holds where exactly one of the characters before and after the position is a word
  character (a missing one counts as not being one). \<open>bef\<close> is the text before the
  position, reversed; \<open>aft\<close> is the text after it.
\<close>

definition boundary :: "string \<Rightarrow> string \<Rightarrow> bool" where
  "boundary bef aft =
     ((case bef of [] \<Rightarrow> False | b # _ \<Rightarrow> isword b) \<noteq> (case aft of [] \<Rightarrow> False | a # _ \<Rightarrow> isword a))"

function rmatch :: "frame list \<Rightarrow> string \<Rightarrow> string \<Rightarrow> groups \<Rightarrow> (string \<times> string \<times> groups) option" where
  "rmatch [] bef aft g = Some (bef, aft, g)"
| "rmatch (R (Sym p) # k) bef [] g = None"
| "rmatch (R (Sym p) # k) bef (c # cs) g = (if p c then rmatch k (c # bef) cs g else None)"
| "rmatch (R Eps # k) bef aft g = rmatch k bef aft g"
| "rmatch (R (Seq a b) # k) bef aft g = rmatch (R a # R b # k) bef aft g"
| "rmatch (R (Alt a b) # k) bef aft g =
     (case rmatch (R a # k) bef aft g of Some m \<Rightarrow> Some m | None \<Rightarrow> rmatch (R b # k) bef aft g)"
| "rmatch (R (Star r) # k) bef aft g =
     (case rmatch (R r # StarK r (length aft) # k) bef aft g of
        Some m \<Rightarrow> Some m
      | None \<Rightarrow> rmatch k bef aft g)"
| "rmatch (StarK r n # k) bef aft g =
     (if length aft < n then rmatch (R (Star r) # k) bef aft g else None)"
| "rmatch (R (Group i r) # k) bef aft g = rmatch (R r # GroupEndK i (length aft) # k) bef aft g"
| "rmatch (GroupEndK i n # k) bef aft g =
     rmatch k bef aft ((i, rev (take (n - length aft) bef)) # g)"
| "rmatch (R WordB # k) bef aft g = (if boundary bef aft then rmatch k bef aft g else None)"
  by pat_completeness auto
termination
  by (relation "measures [\<lambda>(k, bef, aft, g). length aft, \<lambda>(k, bef, aft, g). sum_list (map (fweight (length aft)) k)]")
    auto

text \<open>
  A match object: where the match starts, the matched text (\<open>group(0)\<close>) and the captured
  groups. \<open>re.match\<close> tries the start of the string only, \<open>re.search\<close> every position
  from the left.
\<close>

record rematch =
  m_start :: nat
  group0 :: string
  m_groups :: groups

definition group :: "rematch \<Rightarrow> nat \<Rightarrow> string" where
  "group m i = (case map_of (m_groups m) i of None \<Rightarrow> [] | Some s \<Rightarrow> s)"

definition match_at :: "regex \<Rightarrow> string \<Rightarrow> string \<Rightarrow> rematch option" where
  "match_at r bef aft =
     (case rmatch [R r] bef aft [] of
        None \<Rightarrow> None
      | Some (bef', aft', g) \<Rightarrow>
          Some \<lparr>m_start = length bef, group0 = rev (take (length aft - length aft') bef'), m_groups = g\<rparr>)"

definition re_match :: "regex \<Rightarrow> string \<Rightarrow> rematch option" where
  "re_match r s = match_at r [] s"

fun search_from :: "regex \<Rightarrow> string \<Rightarrow> string \<Rightarrow> rematch option" where
  "search_from r bef [] = match_at r bef []"
| "search_from r bef (c # cs) =
     (case match_at r bef (c # cs) of Some m \<Rightarrow> Some m | None \<Rightarrow> search_from r (c # bef) cs)"

definition re_search :: "regex \<Rightarrow> string \<Rightarrow> rematch option" where
  "re_search r s = search_from r [] s"

text \<open>
  \<open>re.sub(pattern, repl, s)\<close> with a function \<open>repl\<close> that may raise. The two patterns the
  program substitutes match exactly one character, so the case of an empty match (where
  Python inserts the replacement between two characters) is never reached; the model
  copies the character there.
\<close>

function sub_from :: "regex \<Rightarrow> (rematch \<Rightarrow> py_error + string) \<Rightarrow> string \<Rightarrow> string \<Rightarrow> py_error + string" where
  "sub_from r repl bef [] = Inr []"
| "sub_from r repl bef (c # cs) =
     (case rmatch [R r] bef (c # cs) [] of
        None \<Rightarrow> map_sum id ((#) c) (sub_from r repl (c # bef) cs)
      | Some (bef', aft', g) \<Rightarrow>
          if length aft' < length (c # cs)
          then (case repl \<lparr>m_start = length bef,
                           group0 = rev (take (length (c # cs) - length aft') bef'), m_groups = g\<rparr> of
                  Inl e \<Rightarrow> Inl e
                | Inr t \<Rightarrow> map_sum id ((@) t) (sub_from r repl bef' aft'))
          else map_sum id ((#) c) (sub_from r repl (c # bef) cs))"
  by pat_completeness auto
termination
  by (relation "measure (\<lambda>(r, repl, bef, aft). length aft)") auto

definition re_sub :: "regex \<Rightarrow> (rematch \<Rightarrow> py_error + string) \<Rightarrow> string \<Rightarrow> py_error + string" where
  "re_sub r repl s = sub_from r repl [] s"

text \<open>Pattern syntax: a literal, a literal under \<open>re.I\<close>, a sequence, \<open>r+\<close> and \<open>r?\<close>.\<close>

definition lit :: "char \<Rightarrow> regex" where
  "lit c = Sym (\<lambda>x. x = c)"

definition lit_i :: "char \<Rightarrow> regex" where
  "lit_i c = Sym (\<lambda>x. lower_char x = lower_char c)"

fun seqs :: "regex list \<Rightarrow> regex" where
  "seqs [] = Eps"
| "seqs (r # rs) = Seq r (seqs rs)"

definition str :: "string \<Rightarrow> regex" where
  "str s = seqs (map lit s)"

definition str_i :: "string \<Rightarrow> regex" where
  "str_i s = seqs (map lit_i s)"

definition plus :: "regex \<Rightarrow> regex" where
  "plus r = Seq r (Star r)"

definition opt :: "regex \<Rightarrow> regex" where
  "opt r = Alt r Eps"

definition white :: regex where
  "white = Sym isspace"

definition digit :: regex where
  "digit = Sym isdecimal"

definition squote :: char where
  "squote = CHR 0x27"

definition dquote :: char where
  "dquote = CHR 0x22"

definition bslash :: char where
  "bslash = CHR 0x5C"

text \<open>\<open>[lo-hi]\<close>, and \<open>.\<close>, which matches everything but a newline.\<close>

definition in_range :: "char \<Rightarrow> char \<Rightarrow> char \<Rightarrow> bool" where
  "in_range lo hi c = (ord lo \<le> ord c \<and> ord c \<le> ord hi)"

definition dot :: regex where
  "dot = Sym (\<lambda>c. c \<noteq> CHR 0x0A)"

text \<open>Sequencing of computations that may raise.\<close>

definition ebind :: "py_error + 'a \<Rightarrow> ('a \<Rightarrow> py_error + 'b) \<Rightarrow> py_error + 'b" where
  "ebind m f = (case m of Inl e \<Rightarrow> Inl e | Inr x \<Rightarrow> f x)"

text \<open>\<open>s.find(sub)\<close> (\<open>-1\<close> when absent), \<open>sub in s\<close> and \<open>s.replace(old, new)\<close>.\<close>

fun find_from :: "nat \<Rightarrow> string \<Rightarrow> string \<Rightarrow> int" where
  "find_from i sub [] = (if sub = [] then int i else - 1)"
| "find_from i sub (c # cs) = (if prefix sub (c # cs) then int i else find_from (Suc i) sub cs)"

definition find :: "string \<Rightarrow> string \<Rightarrow> int" where
  "find s sub = find_from 0 sub s"

definition contains :: "string \<Rightarrow> string \<Rightarrow> bool" where
  "contains s sub = (0 \<le> find s sub)"

definition replace :: "string \<Rightarrow> string \<Rightarrow> string \<Rightarrow> string" where
  "replace s old new = join new (split s old)"

text \<open>
  \<open>c.isdigit()\<close>, \<open>int(c)\<close> on a string of digits (a digit that is not a decimal one, such
  as a superscript, raises \<open>ValueError\<close>) and \<open>ord(c)\<close>, a \<open>TypeError\<close> unless \<open>c\<close> is one
  character long.
\<close>

definition str_isdigit :: "string \<Rightarrow> bool" where
  "str_isdigit s = (s \<noteq> [] \<and> list_all isdigit s)"

definition py_int :: "string \<Rightarrow> py_error + int" where
  "py_int s = (if s \<noteq> [] \<and> list_all isdecimal s
     then Inr (foldl (\<lambda>a c. 10 * a + (int (ord c) - 48)) 0 s)
     else Inl (ValueError (Str ''invalid literal for int()'')))"

definition py_ord :: "string \<Rightarrow> py_error + int" where
  "py_ord s = (case s of [c] \<Rightarrow> Inr (int (ord c)) | _ \<Rightarrow> Inl TypeError)"

section \<open>The MissAV URL pattern and the title\<close>

text \<open>\<open>MISSAV_URL_RE = re.compile(r"https?://(?:www\.)?missav\.(?:ai|ws)/", re.I)\<close>\<close>

definition MISSAV_URL_RE :: regex where
  "MISSAV_URL_RE = seqs [str_i ''http'', opt (lit_i CHR ''s''), str_i ''://'',
     opt (str_i ''www.''), str_i ''missav.'', Alt (str_i ''ai'') (str_i ''ws''), lit_i CHR ''/'']"

definition is_missav_url :: "string \<Rightarrow> bool" where
  "is_missav_url url = (re_match MISSAV_URL_RE (strip url) \<noteq> None)"

definition MISSAV_STRIP_SUFFIXES :: "string list" where
  "MISSAV_STRIP_SUFFIXES = [''-uncensored-leak'', ''-uncensored'', ''-leak'']"

text \<open>\<open>sanitize_filename\<close>: \<open>re.sub(r'[<>:"/\\|?*]', "_", name)\<close>, then \<open>strip() or "video"\<close>.\<close>

definition SANITIZE_RE :: regex where
  "SANITIZE_RE = Sym (\<lambda>c. c \<in> set ''<>:/|?*'' \<or> c = dquote \<or> c = bslash)"

definition sanitize_filename :: "string \<Rightarrow> py_error + string" where
  "sanitize_filename name =
     ebind (re_sub SANITIZE_RE (\<lambda>m. Inr ''_'') name)
       (\<lambda>name'. Inr (if strip name' \<noteq> [] then strip name' else ''video''))"

text \<open>
  \<open>urllib.parse.urlparse(url)\<close>, after CPython 3.11: the scheme, the network location and
  the path. Leading control characters and spaces are stripped and tab, carriage return
  and newline removed; a scheme is split off at the first colon when the text before it
  starts with a letter and is made of scheme characters; a network location follows \<open>//\<close>
  up to the first of \<open>/?#\<close>, and with an unmatched square bracket in it the library
  raises \<open>ValueError\<close>; the fragment and the query are cut off, and for the schemes that
  have them the parameters of the last segment. The library's further checks of a host in
  matched brackets and of a host outside ASCII are not modelled: such a host is accepted.
\<close>

definition scheme_char :: "char \<Rightarrow> bool" where
  "scheme_char c = (in_range CHR ''a'' CHR ''z'' c \<or> in_range CHR ''A'' CHR ''Z'' c
     \<or> in_range CHR ''0'' CHR ''9'' c \<or> c \<in> set ''+-.'')"

definition ascii_alpha :: "char \<Rightarrow> bool" where
  "ascii_alpha c = (in_range CHR ''a'' CHR ''z'' c \<or> in_range CHR ''A'' CHR ''Z'' c)"

definition uses_params :: "string list" where
  "uses_params = [[], ''ftp'', ''hdl'', ''prospero'', ''http'', ''imap'', ''https'', ''shttp'',
     ''rtsp'', ''rtsps'', ''rtspu'', ''sip'', ''sips'', ''mms'', ''sftp'', ''tel'']"

definition splitparams :: "string \<Rightarrow> string" where
  "splitparams url =
     (let seg = rev (takeWhile (\<lambda>c. c \<noteq> CHR ''/'') (rev url))
      in take (length url - length seg) url @ takeWhile (\<lambda>c. c \<noteq> CHR '';'') seg)"

record parse_result =
  pr_scheme :: string
  pr_netloc :: string
  pr_path :: string

definition urlparse :: "string \<Rightarrow> py_error + parse_result" where
  "urlparse url0 =
     (let url1 = filter (\<lambda>c. c \<notin> {CHR 0x09, CHR 0x0D, CHR 0x0A}) (lstrip_chars (\<lambda>c. ord c \<le> 32) url0);
          i = find url1 '':'';
          has_scheme = (0 < i \<and> ascii_alpha (hd url1) \<and> list_all scheme_char (take (nat i) url1));
          scheme = (if has_scheme then lower (take (nat i) url1) else []);
          url2 = (if has_scheme then drop (nat i + 1) url1 else url1);
          has_netloc = (take 2 url2 = ''//'');
          netloc = (if has_netloc then takeWhile (\<lambda>c. c \<notin> set ''/?#'') (drop 2 url2) else []);
          url3 = (if has_netloc then dropWhile (\<lambda>c. c \<notin> set ''/?#'') (drop 2 url2) else url2);
          url4 = takeWhile (\<lambda>c. c \<noteq> CHR ''?'') (takeWhile (\<lambda>c. c \<noteq> CHR ''#'') url3)
      in if (CHR ''['' \<in> set netloc) \<noteq> (CHR '']'' \<in> set netloc) then Inl (ValueError (Str ''Invalid IPv6 URL''))
         else Inr \<lparr>pr_scheme = scheme, pr_netloc = netloc,
                   pr_path = (if scheme \<in> set uses_params \<and> CHR '';'' \<in> set url4 then splitparams url4 else url4)\<rparr>)"

text \<open>\<open>_origin_from_url\<close>\<close>

definition origin_from_url :: "string \<Rightarrow> py_error + string" where
  "origin_from_url url =
     ebind (urlparse url) (\<lambda>p.
       Inr (if pr_scheme p \<noteq> [] \<and> pr_netloc p \<noteq> [] then pr_scheme p @ ''://'' @ pr_netloc p else []))"

text \<open>
  The loop over \<open>MISSAV_STRIP_SUFFIXES\<close>: the first suffix the segment ends with is cut off,
  with the hyphens left at the end, and the loop stops.
\<close>

fun strip_suffixes :: "string list \<Rightarrow> string \<Rightarrow> string" where
  "strip_suffixes [] segment = segment"
| "strip_suffixes (suf # rest) segment =
     (if endswith segment suf
      then rstrip_chars (\<lambda>c. c = CHR ''-'') (take (length segment - length suf) segment)
      else strip_suffixes rest segment)"

definition missav_filename_from_url :: "string \<Rightarrow> py_error + string" where
  "missav_filename_from_url url =
     ebind (urlparse (strip url)) (\<lambda>p.
       let path = strip_chars (\<lambda>c. c = CHR ''/'') (pr_path p)
       in if path = [] then Inr ''video''
          else ebind (sanitize_filename (strip_suffixes MISSAV_STRIP_SUFFIXES (last (split path ''/''))))
                 (\<lambda>t. Inr (if t \<noteq> [] then t else ''video'')))"

section \<open>The packed-script unpacker\<close>

text \<open>\<open>re.sub(r"\b([0-9a-e])\b", repl, packed)\<close>\<close>

definition UNPACK_RE :: regex where
  "UNPACK_RE = seqs [WordB,
     Group 1 (Sym (\<lambda>c. in_range CHR ''0'' CHR ''9'' c \<or> in_range CHR ''a'' CHR ''e'' c)), WordB]"

definition repl :: "string list \<Rightarrow> rematch \<Rightarrow> py_error + string" where
  "repl parts m =
     (let c = group0 m; n = int (length parts)
      in if str_isdigit c
         then ebind (py_int c) (\<lambda>i. if i < n then getitem parts i else Inr c)
         else if ''a'' \<le> c \<and> c \<le> ''e''
         then ebind (py_ord c) (\<lambda>oc. let i = 10 + oc - 97 in if i < n then getitem parts i else Inr c)
         else Inr c)"

definition unpack_missav_packed_js :: "string \<Rightarrow> string \<Rightarrow> py_error + string" where
  "unpack_missav_packed_js packed dict_str = re_sub UNPACK_RE (repl (split dict_str ''|'')) packed"

section \<open>The manifest extractor\<close>

text \<open>The classes \<open>[^']\<close> and \<open>[^'\\]\<close>, and \<open>[^\s'"<>]\<close> of the two URL patterns.\<close>

definition notq :: regex where
  "notq = Sym (\<lambda>c. c \<noteq> squote)"

definition notqb :: regex where
  "notqb = Sym (\<lambda>c. c \<noteq> squote \<and> c \<noteq> bslash)"

definition urlchar :: regex where
  "urlchar = Sym (\<lambda>c. \<not> isspace c \<and> c \<noteq> squote \<and> c \<noteq> dquote \<and> c \<noteq> CHR ''<'' \<and> c \<noteq> CHR ''>'')"

text \<open>The tail \<open>'\.split\s*\(\s*'\|'\s*\)\<close> that four of the patterns share.\<close>

definition split_call :: regex where
  "split_call = seqs [lit squote, str ''.split'', Star white, lit CHR ''('', Star white,
     lit squote, lit CHR ''|'', lit squote, Star white, lit CHR '')'']"

text \<open>
  \<open>r"\}\s*\(\s*'((?:[^'\\]|\\.)*)',\s*\d+\s*,\s*\d+\s*,\s*'([^']+(?:\|[^']+)+)'\.split\s*\(\s*'\|'\s*\)"\<close>
\<close>

definition PACKED_RE :: regex where
  "PACKED_RE = seqs [lit CHR ''}'', Star white, lit CHR ''('', Star white, lit squote,
     Group 1 (Star (Alt notqb (Seq (lit bslash) dot))), lit squote, lit CHR '','',
     Star white, plus digit, Star white, lit CHR '','',
     Star white, plus digit, Star white, lit CHR '','', Star white, lit squote,
     Group 2 (Seq (plus notq) (plus (Seq (lit CHR ''|'') (plus notq)))), split_call]"

text \<open>
  \<open>r"'((?:[^'\\]|\\.)*');\s*,\s*\d+\s*,\s*\d+\s*,\s*'m3u8\|[^']*'\.split\s*\(\s*'\|'\s*\)"\<close>
\<close>

definition FALLBACK_RE :: regex where
  "FALLBACK_RE = seqs [lit squote,
     Group 1 (Seq (Star (Alt notqb (Seq (lit bslash) dot))) (lit squote)), lit CHR '';'',
     Star white, lit CHR '','', Star white, plus digit, Star white, lit CHR '','',
     Star white, plus digit, Star white, lit CHR '','', Star white, lit squote,
     str ''m3u8|'', Star notq, split_call]"

text \<open>\<open>r"'m3u8\|[^']+(?:\|[^']+)+'\.split\s*\(\s*'\|'\s*\)"\<close>\<close>

definition DICT_MATCH_RE :: regex where
  "DICT_MATCH_RE = seqs [lit squote, str ''m3u8|'', plus notq,
     plus (Seq (lit CHR ''|'') (plus notq)), split_call]"

text \<open>\<open>r"'m3u8\|([^']+(?:\|[^']+)+)'\.split\s*\(\s*'\|'\s*\)"\<close>\<close>

definition DICT_ONLY_RE :: regex where
  "DICT_ONLY_RE = seqs [lit squote, str ''m3u8|'',
     Group 1 (Seq (plus notq) (plus (Seq (lit CHR ''|'') (plus notq)))), split_call]"

text \<open>\<open>r"https?://[^\s'\"<>]+\.m3u8"\<close> and \<open>r'https?://[^\s"\'<>]+\.m3u8[^\s"\'<>]*'\<close>\<close>

definition M3U8_RE :: regex where
  "M3U8_RE = seqs [str ''http'', opt (lit CHR ''s''), str ''://'', plus urlchar, str ''.m3u8'']"

definition GENERIC_RE :: regex where
  "GENERIC_RE = seqs [str ''http'', opt (lit CHR ''s''), str ''://'', plus urlchar, str ''.m3u8'',
     Star urlchar]"

text \<open>
  \<open>_extract_missav_m3u8_from_packed\<close>. Both branches end in the unpacking of \<open>packed\<close>
  with \<open>dict_str\<close> and the search for a manifest URL in the result.
\<close>

definition unpack_and_search :: "string \<Rightarrow> string \<Rightarrow> py_error + string option" where
  "unpack_and_search packed dict_str =
     ebind (unpack_missav_packed_js packed dict_str)
       (\<lambda>unpacked. Inr (map_option group0 (re_search M3U8_RE unpacked)))"

definition extract_missav_m3u8_from_packed :: "string \<Rightarrow> py_error + string option" where
  "extract_missav_m3u8_from_packed webpage =
     (case re_search PACKED_RE webpage of
        Some m \<Rightarrow> unpack_and_search (group m 1) (group m 2)
      | None \<Rightarrow>
          (case re_search FALLBACK_RE webpage of
             None \<Rightarrow> Inr None
           | Some fallback \<Rightarrow>
               (case re_search DICT_MATCH_RE (drop (m_start fallback) webpage) of
                  None \<Rightarrow> Inr None
                | Some dict_match \<Rightarrow>
                    (let d0 = group0 dict_match;
                         d1 = slice d0 0 (find d0 (squote # ''.split''));
                         dict_str = (if startswith d1 [squote] then drop 1 d1 else d1)
                     in if \<not> contains dict_str ''https'' then Inr None
                        else unpack_and_search (group fallback 1) dict_str))))"

text \<open>
  \<open>_extract_missav_m3u8_from_dict_only\<close>: the body of the \<open>try\<close>, and the function with
  its handler for \<open>ValueError\<close> and \<open>IndexError\<close>.
\<close>

definition dict_only_try :: "string list \<Rightarrow> py_error + string option" where
  "dict_only_try parts =
     ebind (index parts ''https'') (\<lambda>idx_https.
       case index_from 0 parts ''com'' of
         None \<Rightarrow> Inr None
       | Some idx_com \<Rightarrow>
           if idx_com \<ge> idx_https \<or> int idx_https - int idx_com < 2 then Inr None
           else (let base = join ''.'' (rev (slice parts (int idx_com) (int idx_https)))
                 in if length parts \<ge> 6
                    then (let path = join ''-'' (rev (slice parts 1 6))
                          in Inr (Some (''https://'' @ base @ ''/'' @ path @ ''/playlist.m3u8'')))
                    else Inr None))"

definition extract_missav_m3u8_from_dict_only :: "string \<Rightarrow> py_error + string option" where
  "extract_missav_m3u8_from_dict_only webpage =
     (case re_search DICT_ONLY_RE webpage of
        None \<Rightarrow> Inr None
      | Some m \<Rightarrow>
          (let parts = split (''m3u8|'' @ group m 1) ''|''
           in if ''https'' \<notin> set parts \<or> ''playlist'' \<notin> set parts then Inr None
              else (case dict_only_try parts of
                      Inl (ValueError _) \<Rightarrow> Inr None
                    | Inl IndexError \<Rightarrow> Inr None
                    | r \<Rightarrow> r)))"

text \<open>\<open>_extract_og_meta\<close>, with its two patterns under \<open>re.I\<close>.\<close>

definition anyq :: regex where
  "anyq = Sym (\<lambda>c. c = dquote \<or> c = squote)"

definition og_re :: "string \<Rightarrow> regex" where
  "og_re name = seqs [str_i ''<meta'', plus (Sym (\<lambda>c. c \<noteq> CHR ''>'')), str_i ''property='', anyq,
     str_i name, anyq, plus (Sym (\<lambda>c. c \<noteq> CHR ''>'')), str_i ''content='', anyq,
     Group 1 (Star (Sym (\<lambda>c. c \<noteq> dquote \<and> c \<noteq> squote))), anyq]"

definition og_field :: "string \<Rightarrow> string \<Rightarrow> string option" where
  "og_field name webpage =
     (case re_search (og_re name) webpage of
        None \<Rightarrow> None
      | Some m \<Rightarrow> (if strip (group m 1) \<noteq> [] then Some (strip (group m 1)) else None))"

definition extract_og_meta :: "string \<Rightarrow> string option \<times> string option" where
  "extract_og_meta webpage = (og_field ''og:title'' webpage, og_field ''og:description'' webpage)"

text \<open>
  Step 3 of \<open>_extract_missav_m3u8_and_title\<close>, the legacy format: the body of its \<open>try\<close>.
  \<open>Inr None\<close> is the case in which \<open>m3u8_url\<close> is not assigned.
\<close>

definition legacy_words :: "string list \<Rightarrow> py_error + string option" where
  "legacy_words url_words =
     (if ''video'' \<in> set url_words then
        ebind (index url_words ''video'') (\<lambda>video_index.
        ebind (getitem url_words (int video_index - 1)) (\<lambda>protocol.
        let m3u8_url_path = join ''-'' (rev (slice url_words 0 5));
            base_url_path = join ''.'' (rev (slice url_words 5 (int video_index - 1)))
        in ebind (getitem url_words (int video_index + 1)) (\<lambda>video_format.
           ebind (getitem url_words (int video_index)) (\<lambda>video.
             Inr (Some (protocol @ ''://'' @ base_url_path @ ''/'' @ m3u8_url_path @ ''/''
                        @ video_format @ ''/'' @ video @ ''.m3u8''))))))
      else Inr None)"

definition legacy_try :: "string \<Rightarrow> py_error + string option" where
  "legacy_try webpage =
     ebind (getitem (split webpage ''m3u8|'') 1) (\<lambda>after.
     ebind (getitem (split after ''|playlist|source'') 0) (\<lambda>chunk.
       legacy_words (split chunk ''|'')))"

text \<open>Step 4, the scan for any manifest URL once \<open>\/\<close> is unescaped.\<close>

definition generic_scan :: "string \<Rightarrow> string option" where
  "generic_scan webpage =
     (case re_search GENERIC_RE (replace webpage (bslash # ''/'') ''/'') of
        None \<Rightarrow> None
      | Some m \<Rightarrow> Some (strip (rstrip_chars (\<lambda>c. c = bslash) (group0 m))))"

text \<open>
  \<open>_extract_missav_m3u8_and_title\<close>. \<open>missav_m3u8_url\<close> is the value of \<open>m3u8_url\<close> after
  the four steps; each step runs only while \<open>m3u8_url\<close> is false.
\<close>

definition step2 :: "string \<Rightarrow> string option \<Rightarrow> py_error + string option" where
  "step2 webpage m3u8_url =
     (if \<not> truthy m3u8_url then extract_missav_m3u8_from_dict_only webpage else Inr m3u8_url)"

definition step3 :: "string \<Rightarrow> string option \<Rightarrow> py_error + string option" where
  "step3 webpage m3u8_url =
     (if \<not> truthy m3u8_url then
        (case legacy_try webpage of
           Inl IndexError \<Rightarrow> Inr m3u8_url
         | Inl (ValueError _) \<Rightarrow> Inr m3u8_url
         | Inl KeyError \<Rightarrow> Inr m3u8_url
         | Inl e \<Rightarrow> Inl e
         | Inr None \<Rightarrow> Inr m3u8_url
         | Inr (Some u) \<Rightarrow> Inr (Some u))
      else Inr m3u8_url)"

definition step4 :: "string \<Rightarrow> string option \<Rightarrow> string option" where
  "step4 webpage m3u8_url =
     (if \<not> truthy m3u8_url then
        (case generic_scan webpage of None \<Rightarrow> m3u8_url | Some u \<Rightarrow> Some u)
      else m3u8_url)"

definition missav_m3u8_url :: "string \<Rightarrow> py_error + string option" where
  "missav_m3u8_url webpage =
     ebind (extract_missav_m3u8_from_packed webpage) (\<lambda>u1.
     ebind (step2 webpage u1) (\<lambda>u2.
     ebind (step3 webpage u2) (\<lambda>u3. Inr (step4 webpage u3))))"

type_synonym extraction = "string \<times> string \<times> string option \<times> string option"

definition extract_missav_m3u8_and_title :: "string \<Rightarrow> string \<Rightarrow> py_error + extraction option" where
  "extract_missav_m3u8_and_title webpage page_url =
     ebind (missav_m3u8_url webpage) (\<lambda>u.
       if \<not> truthy u then Inr None
       else ebind (missav_filename_from_url page_url) (\<lambda>t.
              Inr (Some (the u, t, fst (extract_og_meta webpage), snd (extract_og_meta webpage)))))"

section \<open>The file classifier\<close>

text \<open>
  A \<open>pathlib.Path\<close> is the list of its parts; paths are compared as these lists are, each
  part by code points. \<open>path_suffix\<close> is \<open>Path.suffix\<close>: the last part from its last dot
  on, unless that dot is its first or its last character.
\<close>

type_synonym path = "string list"

definition path_name :: "path \<Rightarrow> string" where
  "path_name p = (if p = [] \<or> p = [''/''] then [] else last p)"

definition rfind :: "string \<Rightarrow> char \<Rightarrow> int" where
  "rfind s c = (case index_from 0 (rev s) c of None \<Rightarrow> - 1 | Some j \<Rightarrow> int (length s) - 1 - int j)"

definition path_suffix :: "path \<Rightarrow> string" where
  "path_suffix p =
     (let name = path_name p; i = rfind name CHR ''.''
      in if 0 < i \<and> i < int (length name) - 1 then drop (nat i) name else [])"

definition VIDEO_EXTS :: "string list" where
  "VIDEO_EXTS = [''.mp4'', ''.mkv'', ''.webm'', ''.avi'', ''.mov'', ''.flv'', ''.m4a'']"

definition SUB_EXTS :: "string list" where
  "SUB_EXTS = [''.srt'', ''.vtt'', ''.ass'', ''.ssa'']"

text \<open>
  \<open>_split_video_and_subs\<close>: the loop over \<open>sorted(files)\<close>, with \<open>video_path\<close> and
  \<open>sub_paths\<close> as accumulators. \<open>is_file\<close> is the answer of the file system.
\<close>

fun split_loop :: "(path \<Rightarrow> bool) \<Rightarrow> path list \<Rightarrow> path option \<Rightarrow> path list \<Rightarrow> path option \<times> path list" where
  "split_loop is_file [] video_path sub_paths = (video_path, sub_paths)"
| "split_loop is_file (f # fs) video_path sub_paths =
     (if \<not> is_file f then split_loop is_file fs video_path sub_paths
      else let ext = lower (path_suffix f)
           in if ext \<in> set VIDEO_EXTS \<and> video_path = None
              then split_loop is_file fs (Some f) sub_paths
              else if ext \<in> set SUB_EXTS
              then split_loop is_file fs video_path (sub_paths @ [f])
              else split_loop is_file fs video_path sub_paths)"

definition split_video_and_subs :: "(path \<Rightarrow> bool) \<Rightarrow> path list \<Rightarrow> path option \<times> path list" where
  "split_video_and_subs is_file files = split_loop is_file (sort files) None []"

section \<open>The job store and the progress hook\<close>

record download_log =
  log_user_id :: int
  log_url :: string
  log_title :: "string option"
  log_og_title :: "string option"
  log_og_description :: "string option"
  log_status :: string
  log_progress :: int
  log_message :: "message option"
  log_completed_at :: "nat option"

record result_data =
  rd_tmpdir :: path
  rd_title :: string
  rd_dtype :: string
  rd_video_path :: "path option"
  rd_file_path :: "path option"
  rd_filename :: "string option"

text \<open>The table \<open>download_logs\<close> by job id, and the dictionary \<open>_job_results\<close>.\<close>

record app_state =
  db :: "int \<rightharpoonup> download_log"
  job_results :: "int \<rightharpoonup> result_data"

text \<open>
  A progress event of the delegate: the keys of the dictionary the hook reads. A key that
  is missing or \<open>None\<close> is \<open>None\<close>. The sizes and fragment numbers are integers.
\<close>

record event =
  ev_status :: "string option"
  total_bytes :: "int option"
  downloaded_bytes :: "int option"
  percent_str :: "string option"
  fragment_count :: "int option"
  fragment_index :: "int option"

text \<open>The truth value of an optional number: \<open>None\<close> and zero are false.\<close>

fun truthy_int :: "int option \<Rightarrow> bool" where
  "truthy_int None = False"
| "truthy_int (Some n) = (n \<noteq> 0)"

text \<open>
  \<open>int(a * 100 / b)\<close> divides exactly and rounds towards zero: \<open>tdiv\<close>. \<open>str_int\<close> is the
  decimal text of an integer, as \<open>f"{pct}"\<close> gives it.
\<close>

definition tdiv :: "int \<Rightarrow> int \<Rightarrow> int" where
  "tdiv a b = (if (a < 0) \<noteq> (b < 0) then - (\<bar>a\<bar> div \<bar>b\<bar>) else \<bar>a\<bar> div \<bar>b\<bar>)"

function str_nat :: "nat \<Rightarrow> string" where
  "str_nat n = (if n < 10 then [char_of (48 + n)] else str_nat (n div 10) @ [char_of (48 + n mod 10)])"
  by pat_completeness auto
termination
  by (relation "measure id") auto

definition str_int :: "int \<Rightarrow> string" where
  "str_int i = (if i < 0 then CHR ''-'' # str_nat (nat (- i)) else str_nat (nat i))"

text \<open>
  \<open>r"(\d+(?:\.\d+)?)\s*%"\<close>, and \<open>int(float(s) + 0.5)\<close> for a text \<open>s\<close> this pattern
  captures, in exact decimal arithmetic: the integer part, plus one when the first digit
  after the point is five or more.
\<close>

definition PERCENT_RE :: regex where
  "PERCENT_RE = seqs [Group 1 (Seq (plus digit) (opt (Seq (lit CHR ''.'') (plus digit)))),
     Star white, lit CHR ''%'']"

definition decimal_value :: "string \<Rightarrow> int" where
  "decimal_value s = foldl (\<lambda>a c. 10 * a + (int (ord c) - 48)) 0 s"

definition int_float_half :: "string \<Rightarrow> int" where
  "int_float_half s =
     (let ip = takeWhile (\<lambda>c. c \<noteq> CHR ''.'') s; fp = drop (length ip + 1) s
      in decimal_value ip + (case fp of [] \<Rightarrow> 0 | c # _ \<Rightarrow> if 53 \<le> ord c then 1 else 0))"

text \<open>
  The body of \<open>progress_hook\<close> under \<open>if callback\<close>: the arguments of the call of the
  callback for an event, if there is one.
\<close>

definition hook_report :: "event \<Rightarrow> (int \<times> message) option" where
  "hook_report d =
     (if ev_status d = Some ''downloading'' then
        (if truthy_int (total_bytes d) then
           (let pct = min 100 (tdiv ((case downloaded_bytes d of None \<Rightarrow> 0 | Some n \<Rightarrow> n) * 100)
                               (the (total_bytes d)));
                msg = (if truthy (percent_str d) then the (percent_str d) else str_int pct @ ''%'')
            in Some (pct, Str msg))
         else
           (let msg = (if truthy (percent_str d) then Str (the (percent_str d)) else MsgDownloading);
                pstr = (if truthy (percent_str d) then the (percent_str d) else []);
                pct = (case re_search PERCENT_RE pstr of
                         Some m \<Rightarrow> min 100 (int_float_half (group m 1))
                       | None \<Rightarrow>
                           if truthy_int (fragment_count d) \<and> fragment_index d \<noteq> None
                           then (if the (fragment_count d) > 0
                                 then min 100 (tdiv (the (fragment_index d) * 100) (the (fragment_count d)))
                                 else 0)
                           else 0)
            in Some (pct, msg)))
      else if ev_status d = Some ''finished'' then Some (100, MsgMerging)
      else None)"

text \<open>
  \<open>_progress_hook_factory\<close>. The callback changes the state of the application; the
  cancellation predicate is a function of the number of hook calls made before, so that
  it may answer differently from one event to the next.
\<close>

type_synonym callback = "int \<Rightarrow> message \<Rightarrow> app_state \<Rightarrow> app_state"

type_synonym hook = "nat \<Rightarrow> event \<Rightarrow> app_state \<Rightarrow> py_error + app_state"

definition progress_hook :: "callback option \<Rightarrow> (nat \<Rightarrow> bool) option \<Rightarrow> hook" where
  "progress_hook callback cancelled_check i d st =
     (if (case cancelled_check of None \<Rightarrow> False | Some c \<Rightarrow> c i) then Inl DownloadCancelled
      else case callback of
             None \<Rightarrow> Inr st
           | Some cb \<Rightarrow> (case hook_report d of None \<Rightarrow> Inr st | Some (pct, msg) \<Rightarrow> Inr (cb pct msg st)))"

definition progress_hook_factory :: "callback option \<Rightarrow> (nat \<Rightarrow> bool) option \<Rightarrow> hook option" where
  "progress_hook_factory callback cancelled_check =
     (if Option.is_none callback \<and> Option.is_none cancelled_check then None
      else Some (progress_hook callback cancelled_check))"

text \<open>
  The delegate calls the hook on each event it reports, in order, and an exception of the
  hook ends the transfer and propagates. The result is the state and the exception, if any.
\<close>

fun run_hooks :: "hook option \<Rightarrow> nat \<Rightarrow> event list \<Rightarrow> app_state \<Rightarrow> app_state \<times> py_error option" where
  "run_hooks None i ds st = (st, None)"
| "run_hooks (Some h) i [] st = (st, None)"
| "run_hooks (Some h) i (d # ds) st =
     (case h i d st of Inl e \<Rightarrow> (st, Some e) | Inr st' \<Rightarrow> run_hooks (Some h) (Suc i) ds st')"

section \<open>The download\<close>

text \<open>
  What lies outside the program: the page the site returns, the delegate (for a target,
  the events it reports and then its failure or its result), the scratch directory and
  the files found in it afterwards, the file system, the archive writer and the clock.
\<close>

record env =
  fetch_missav_page :: "string \<Rightarrow> py_error + string"
  ydl_download :: "string \<Rightarrow> event list \<times> py_error option"
  ydl_extract_info :: "string \<Rightarrow> event list \<times> (py_error + (string option \<times> string option) option)"
  mkdtemp :: path
  glob_tmpdir :: "path list"
  is_file :: "path \<Rightarrow> bool"
  path_exists :: "path \<Rightarrow> bool"
  zip_write :: "path \<Rightarrow> path list \<Rightarrow> py_error option"
  utcnow :: nat

type_synonym download = "path \<times> string \<times> path option \<times> path list \<times> string option \<times> string option"

text \<open>The end of both branches of \<open>download_video_with_subs\<close>: the files that were produced.\<close>

definition collect_files :: "env \<Rightarrow> string \<Rightarrow> string option \<Rightarrow> string option \<Rightarrow> py_error + download" where
  "collect_files e title og_title og_description =
     (let all_files = filter (is_file e) (glob_tmpdir e)
      in if all_files = [] then Inl (ValueError MsgNoFiles)
         else Inr (mkdtemp e, title, fst (split_video_and_subs (is_file e) all_files),
                   snd (split_video_and_subs (is_file e) all_files), og_title, og_description))"

text \<open>The branch for the site: the page is fetched and parsed, the manifest is downloaded.\<close>

definition download_missav :: "env \<Rightarrow> string \<Rightarrow> hook option \<Rightarrow> app_state \<Rightarrow> app_state \<times> (py_error + download)" where
  "download_missav e url hk st =
     (case fetch_missav_page e url of
        Inl err \<Rightarrow> (st, Inl (ValueError (MsgPageLoad (exc_str err))))
      | Inr webpage \<Rightarrow>
          (case extract_missav_m3u8_and_title webpage url of
             Inl err \<Rightarrow> (st, Inl err)
           | Inr None \<Rightarrow> (st, Inl (ValueError MsgNoLink))
           | Inr (Some (m3u8_url, title, og_title, og_description)) \<Rightarrow>
               (case run_hooks hk 0 (fst (ydl_download e m3u8_url)) st of
                  (st', Some err) \<Rightarrow> (st', Inl err)
                | (st', None) \<Rightarrow>
                    (case snd (ydl_download e m3u8_url) of
                       Some err \<Rightarrow> (st', Inl err)
                     | None \<Rightarrow> (st', collect_files e title og_title og_description)))))"

text \<open>The other branch: the URL itself goes to the delegate.\<close>

definition nonempty :: "string \<Rightarrow> string option" where
  "nonempty s = (if s = [] then None else Some s)"

definition download_generic :: "env \<Rightarrow> string \<Rightarrow> hook option \<Rightarrow> app_state \<Rightarrow> app_state \<times> (py_error + download)" where
  "download_generic e url hk st =
     (case run_hooks hk 0 (fst (ydl_extract_info e url)) st of
        (st', Some err) \<Rightarrow> (st', Inl err)
      | (st', None) \<Rightarrow>
          (case snd (ydl_extract_info e url) of
             Inl err \<Rightarrow> (st', Inl err)
           | Inr None \<Rightarrow> (st', Inl (ValueError MsgNoInfo))
           | Inr (Some (info_title, info_description)) \<Rightarrow>
               (case sanitize_filename (if truthy info_title then the info_title else ''video'') of
                  Inl err \<Rightarrow> (st', Inl err)
                | Inr title \<Rightarrow>
                    (st', collect_files e title
                       (nonempty (strip (if truthy info_title then the info_title else [])))
                       (nonempty (strip (if truthy info_description then the info_description else [])))))))"

definition download_video_with_subs ::
  "env \<Rightarrow> string \<Rightarrow> callback option \<Rightarrow> (nat \<Rightarrow> bool) option \<Rightarrow> app_state \<Rightarrow> app_state \<times> (py_error + download)" where
  "download_video_with_subs e url progress_callback cancelled_check st =
     (let hk = progress_hook_factory progress_callback cancelled_check
      in case origin_from_url url of
           Inl err \<Rightarrow> (st, Inl err)
         | Inr origin \<Rightarrow>
             if is_missav_url url then download_missav e url hk st
             else download_generic e url hk st)"

section \<open>The job\<close>

definition update_log :: "int \<Rightarrow> (download_log \<Rightarrow> download_log) \<Rightarrow> app_state \<Rightarrow> app_state" where
  "update_log job_id f st =
     (case db st job_id of None \<Rightarrow> st | Some log \<Rightarrow> st\<lparr>db := (db st)(job_id \<mapsto> f log)\<rparr>)"

text \<open>\<open>progress_cb\<close> of \<open>_run_download_job\<close>.\<close>

definition progress_cb :: "int \<Rightarrow> callback" where
  "progress_cb job_id percent msg st =
     update_log job_id (\<lambda>log. log\<lparr>log_progress := min 100 percent, log_message := Some msg\<rparr>) st"

definition set_error :: "env \<Rightarrow> int \<Rightarrow> message \<Rightarrow> app_state \<Rightarrow> app_state" where
  "set_error e job_id msg st =
     update_log job_id (\<lambda>log. log\<lparr>log_status := ''error'', log_message := Some msg,
                                   log_completed_at := Some (utcnow e)\<rparr>) st"

definition set_done :: "env \<Rightarrow> int \<Rightarrow> result_data \<Rightarrow> string \<Rightarrow> string option \<Rightarrow> string option \<Rightarrow> app_state \<Rightarrow> app_state" where
  "set_done e job_id result title og_title og_description st =
     update_log job_id
       (\<lambda>log. log\<lparr>log_status := ''done'', log_progress := 100, log_message := Some MsgDone,
                  log_title := Some title,
                  log_og_title := (if og_title \<noteq> None then og_title else log_og_title log),
                  log_og_description := (if og_description \<noteq> None then og_description else log_og_description log),
                  log_completed_at := Some (utcnow e)\<rparr>)
       (st\<lparr>job_results := (job_results st)(job_id \<mapsto> result)\<rparr>)"

text \<open>
  The packaging by \<open>dtype\<close>. The result is the state and an exception that escapes the
  job, which only the archive writer can raise here.
\<close>

definition package :: "env \<Rightarrow> int \<Rightarrow> string \<Rightarrow> download \<Rightarrow> app_state \<Rightarrow> app_state \<times> py_error option" where
  "package e job_id dtype dl st =
     (case dl of (tmpdir, title, video_path, sub_paths, og_title, og_description) \<Rightarrow>
        let result = \<lparr>rd_tmpdir = tmpdir, rd_title = title, rd_dtype = dtype, rd_video_path = None,
                      rd_file_path = None, rd_filename = None\<rparr>
        in if dtype = ''video'' then
             (case video_path of
                Some vp \<Rightarrow>
                  if path_exists e vp
                  then (set_done e job_id (result\<lparr>rd_video_path := Some vp,
                                                   rd_filename := Some (title @ path_suffix vp)\<rparr>)
                          title og_title og_description st, None)
                  else (set_error e job_id MsgNoVideo st, None)
              | None \<Rightarrow> (set_error e job_id MsgNoVideo st, None))
           else if dtype = ''subs'' then
             (if sub_paths \<noteq> [] then
                (if length sub_paths = 1
                 then (set_done e job_id (result\<lparr>rd_file_path := Some (hd sub_paths),
                                                  rd_filename := Some (path_name (hd sub_paths))\<rparr>)
                         title og_title og_description st, None)
                 else (let zip_path = tmpdir @ [title @ ''_subtitles.zip'']
                       in case zip_write e zip_path sub_paths of
                            Some err \<Rightarrow> (st, Some err)
                          | None \<Rightarrow>
                              (set_done e job_id (result\<lparr>rd_file_path := Some zip_path,
                                                           rd_filename := Some (path_name zip_path)\<rparr>)
                                 title og_title og_description st, None)))
              else (set_error e job_id MsgNoSubs st, None))
           else
             (let zip_path = tmpdir @ [title @ ''.zip'']
              in case zip_write e zip_path (filter (\<lambda>f. is_file e f \<and> f \<noteq> zip_path) (glob_tmpdir e)) of
                   Some err \<Rightarrow> (st, Some err)
                 | None \<Rightarrow>
                     (set_done e job_id (result\<lparr>rd_file_path := Some zip_path,
                                                  rd_filename := Some (path_name zip_path)\<rparr>)
                        title og_title og_description st, None)))"

text \<open>
  \<open>_run_download_job\<close>, with the cancellation predicate that is handed to
  \<open>download_video_with_subs\<close> as a parameter. The program hands none over:
  \<open>run_download_job\<close> is the function as it is written.
\<close>

definition run_download_job_with ::
  "(nat \<Rightarrow> bool) option \<Rightarrow> env \<Rightarrow> int \<Rightarrow> string \<Rightarrow> string \<Rightarrow> int \<Rightarrow> app_state \<Rightarrow> app_state \<times> py_error option" where
  "run_download_job_with cancelled_check e job_id url dtype user_id st =
     (case db st job_id of
        None \<Rightarrow> (st, None)
      | Some log \<Rightarrow>
          if log_status log \<noteq> ''pending'' then (st, None)
          else (case download_video_with_subs e url (Some (progress_cb job_id)) cancelled_check
                       (update_log job_id (\<lambda>log. log\<lparr>log_status := ''downloading'', log_progress := 0,
                                                       log_message := Some MsgPreparing\<rparr>) st) of
                  (st', Inl err) \<Rightarrow> (set_error e job_id (exc_str err) st', None)
                | (st', Inr dl) \<Rightarrow> package e job_id dtype dl st'))"

definition run_download_job :: "env \<Rightarrow> int \<Rightarrow> string \<Rightarrow> string \<Rightarrow> int \<Rightarrow> app_state \<Rightarrow> app_state \<times> py_error option" where
  "run_download_job e job_id url dtype user_id st = run_download_job_with None e job_id url dtype user_id st"

section \<open>Serving the result\<close>

datatype http_error = HTTPException nat message

record file_response =
  resp_path :: path
  resp_filename :: string
  resp_media_type :: string

text \<open>
  \<open>download_result\<close>. It assigns to nothing; the state is returned as it was, so that
  calls can be put in sequence.
\<close>

definition download_result :: "env \<Rightarrow> int \<Rightarrow> int \<Rightarrow> app_state \<Rightarrow> (http_error + file_response) \<times> app_state" where
  "download_result e job_id current_user_id st =
     (case db st job_id of
        None \<Rightarrow> (Inl (HTTPException 404 MsgJobNotFound), st)
      | Some log \<Rightarrow>
          if log_user_id log \<noteq> current_user_id then (Inl (HTTPException 403 MsgForbidden), st)
          else if log_status log \<noteq> ''done'' then (Inl (HTTPException 400 MsgNotFinished), st)
          else (case job_results st job_id of
                  None \<Rightarrow> (Inl (HTTPException 404 MsgExpired), st)
                | Some data \<Rightarrow>
                    (let fname = (case rd_filename data of None \<Rightarrow> ''download'' | Some f \<Rightarrow> f)
                     in case rd_video_path data of
                          Some vp \<Rightarrow>
                            (Inr \<lparr>resp_path = vp, resp_filename = fname,
                                  resp_media_type = ''application/octet-stream''\<rparr>, st)
                        | None \<Rightarrow>
                            (case rd_file_path data of
                               None \<Rightarrow> (Inl (HTTPException 404 MsgFileMissing), st)
                             | Some fp \<Rightarrow>
                                 if \<not> path_exists e fp then (Inl (HTTPException 404 MsgFileMissing), st)
                                 else (Inr \<lparr>resp_path = fp, resp_filename = fname,
                                             resp_media_type = (if path_suffix fp = ''.zip''
                                                                then ''application/zip''
                                                                else ''application/x-subrip'')\<rparr>, st)))))"

text \<open>
  The end of \<open>lifespan\<close>, at shutdown: the scratch directories are deleted and the
  dictionary is cleared.
\<close>

definition lifespan_shutdown :: "app_state \<Rightarrow> app_state" where
  "lifespan_shutdown st = st\<lparr>job_results := Map.empty\<rparr>"

section \<open>The claims in the words of the specification\<close>

text \<open>
  The dispatch: the URL, stripped of surrounding white space and in lower case, begins
  with \<open>http://\<close> or \<open>https://\<close>, then \<open>www.\<close> or nothing, then \<open>missav.ai/\<close> or
  \<open>missav.ws/\<close>.
\<close>

definition missav_prefixes :: "string list" where
  "missav_prefixes = [scheme @ www @ ''missav.'' @ tld @ ''/''.
     scheme \<leftarrow> [''http://'', ''https://''], www \<leftarrow> [[], ''www.''], tld \<leftarrow> [''ai'', ''ws'']]"

definition begins_with_missav :: "string \<Rightarrow> bool" where
  "begins_with_missav url = list_ex (\<lambda>p. prefix p (lower (strip url))) missav_prefixes"

text \<open>
  The classifier: the files are sorted, the primary media file is the first one with a
  media extension and the subtitles are all the files with a subtitle extension, in
  sorted order.
\<close>

definition is_video :: "path \<Rightarrow> bool" where
  "is_video f = (lower (path_suffix f) \<in> set VIDEO_EXTS)"

definition is_sub :: "path \<Rightarrow> bool" where
  "is_sub f = (lower (path_suffix f) \<in> set SUB_EXTS)"

definition classify :: "(path \<Rightarrow> bool) \<Rightarrow> path list \<Rightarrow> path option \<times> path list" where
  "classify isf files =
     (List.find is_video (sort (filter isf files)), filter is_sub (sort (filter isf files)))"

text \<open>
  The unpacker: a character of the packed text is replaced when it is a code (\<open>0\<close> to
  \<open>9\<close> for the entries 0 to 9 of the dictionary, \<open>a\<close> to \<open>e\<close> for the entries 10 to 14),
  stands alone (the characters next to it, if any, are not word characters) and its entry
  exists; every other character is kept.
\<close>

definition code_char :: "char \<Rightarrow> bool" where
  "code_char c = (in_range CHR ''0'' CHR ''9'' c \<or> in_range CHR ''a'' CHR ''e'' c)"

definition code_index :: "char \<Rightarrow> nat" where
  "code_index c = (if in_range CHR ''0'' CHR ''9'' c then ord c - 48 else 10 + (ord c - 97))"

definition alone :: "string \<Rightarrow> nat \<Rightarrow> bool" where
  "alone s i = ((i = 0 \<or> \<not> isword (s ! (i - 1))) \<and> (i + 1 = length s \<or> \<not> isword (s ! (i + 1))))"

definition unpack_char :: "string list \<Rightarrow> string \<Rightarrow> nat \<Rightarrow> string" where
  "unpack_char parts s i =
     (if code_char (s ! i) \<and> alone s i \<and> code_index (s ! i) < length parts
      then parts ! code_index (s ! i) else [s ! i])"

definition unpack_spec :: "string \<Rightarrow> string \<Rightarrow> string" where
  "unpack_spec packed dict_str =
     concat (map (unpack_char (split dict_str ''|'') packed) [0..<length packed])"

text \<open>
  The dictionary-only strategy, on the tokens of the dictionary it found: \<open>https\<close>,
  \<open>playlist\<close> and \<open>com\<close> occur, \<open>com\<close> comes first at least two places before the first
  \<open>https\<close>, and there are six tokens or more. The origin is the tokens from \<open>com\<close> up to
  \<open>https\<close>, reversed and joined with dots; the path is the tokens 1 to 5, reversed and
  joined with hyphens.
\<close>

definition first_pos :: "'a list \<Rightarrow> 'a \<Rightarrow> nat" where
  "first_pos xs x = length (takeWhile (\<lambda>y. y \<noteq> x) xs)"

definition dict_only_spec :: "string list \<Rightarrow> string option" where
  "dict_only_spec tokens =
     (if ''https'' \<in> set tokens \<and> ''playlist'' \<in> set tokens \<and> ''com'' \<in> set tokens
         \<and> first_pos tokens ''com'' + 2 \<le> first_pos tokens ''https'' \<and> 6 \<le> length tokens
      then Some (''https://''
                 @ join ''.'' (rev (take (first_pos tokens ''https'' - first_pos tokens ''com'')
                                      (drop (first_pos tokens ''com'') tokens)))
                 @ ''/'' @ join ''-'' (rev (take 5 (drop 1 tokens))) @ ''/playlist.m3u8'')
      else None)"

text \<open>
  The legacy strategy, on the tokens \<open>ws\<close> between \<open>m3u8|\<close> and \<open>|playlist|source\<close>, with
  \<open>video\<close> first at position \<open>i\<close>: the scheme is the token before \<open>video\<close>, the host the
  tokens from position 5 up to the scheme, reversed and joined with dots, the path the
  first five tokens, reversed and joined with hyphens, the format the token after
  \<open>video\<close>. \<open>legacy_claimed_url\<close> is the URL as the claim assembles it,
  \<open>legacy_url\<close> the URL with the segment \<open>/video\<close> that the program puts after the format.
\<close>

definition legacy_claimed_url :: "string list \<Rightarrow> string" where
  "legacy_claimed_url ws =
     (let i = first_pos ws ''video''
      in ws ! (i - 1) @ ''://'' @ join ''.'' (rev (take (i - 1 - 5) (drop 5 ws)))
         @ ''/'' @ join ''-'' (rev (take 5 ws)) @ ''/'' @ ws ! (i + 1) @ ''.m3u8'')"

definition legacy_url :: "string list \<Rightarrow> string" where
  "legacy_url ws =
     (let i = first_pos ws ''video''
      in ws ! (i - 1) @ ''://'' @ join ''.'' (rev (take (i - 1 - 5) (drop 5 ws)))
         @ ''/'' @ join ''-'' (rev (take 5 ws)) @ ''/'' @ ws ! (i + 1) @ ''/video.m3u8'')"

text \<open>
  The manifest URL in the result of the extractor, and the legacy fixture of the example
  scenario.
\<close>

definition manifest_of :: "py_error + extraction option \<Rightarrow> string option" where
  "manifest_of r = (case r of Inr (Some (u, t, a, b)) \<Rightarrow> Some u | _ \<Rightarrow> None)"

definition LEGACY_FIXTURE :: string where
  "LEGACY_FIXTURE = ''m3u8|1|2|3|4|5|com|surrit|https|video|ts|playlist|source''"

text \<open>
  The four strategies, each with the result it yields (nothing when it raises and the
  extractor catches it), and the first result among them that is not empty.
  \<open>BOTH_MARKERS\<close> is a page with a packed script whose dictionary is also a marker of the
  dictionary-only strategy.
\<close>

definition result :: "py_error + string option \<Rightarrow> string option" where
  "result r = (case r of Inl e \<Rightarrow> None | Inr x \<Rightarrow> x)"

definition strategies :: "string \<Rightarrow> string option list" where
  "strategies webpage =
     [result (extract_missav_m3u8_from_packed webpage),
      result (extract_missav_m3u8_from_dict_only webpage),
      result (legacy_try webpage),
      generic_scan webpage]"

definition first_result :: "string \<Rightarrow> string option" where
  "first_result webpage = (case List.find truthy (strategies webpage) of None \<Rightarrow> None | Some r \<Rightarrow> r)"

definition BOTH_MARKERS :: string where
  "BOTH_MARKERS = ''eval(function(p,a,c,k,e,d){}('' @ squote # ''f='' @ dquote # ''8://7.6/5-4-3-2-1/e.0''
     @ dquote # '';'' @ squote # '',15,15,'' @ squote
     # ''m3u8|1|2|3|4|5|com|surrit|https|video|ts|playlist|source|x|pl'' @ squote # ''.split(''
     @ squote # ''|'' @ squote # ''),0,{}))''"

text \<open>
  The progress of a job: the hook \<open>_run_download_job\<close> installs, and the stored percent after
  a list of events. An event has no percent string when the pattern finds nothing in it,
  and no usable fragment pair unless both numbers are there and the count is positive.
\<close>

definition job_hook :: "int \<Rightarrow> hook option" where
  "job_hook job_id = progress_hook_factory (Some (progress_cb job_id)) None"

definition progress_after :: "int \<Rightarrow> event list \<Rightarrow> app_state \<Rightarrow> int option" where
  "progress_after job_id ds st =
     map_option log_progress (db (fst (run_hooks (job_hook job_id) 0 ds st)) job_id)"

definition no_percent :: "event \<Rightarrow> bool" where
  "no_percent d = (re_search PERCENT_RE (if truthy (percent_str d) then the (percent_str d) else []) = None)"

definition no_fragments :: "event \<Rightarrow> bool" where
  "no_fragments d = (\<not> (\<exists>fc fi. fragment_count d = Some fc \<and> fragment_index d = Some fi \<and> 0 < fc))"

definition FRAGMENT_EVENT :: event where
  "FRAGMENT_EVENT = \<lparr>ev_status = Some ''downloading'', total_bytes = None, downloaded_bytes = Some 4096,
     percent_str = None, fragment_count = Some 2, fragment_index = Some 1\<rparr>"

definition BARE_EVENT :: event where
  "BARE_EVENT = \<lparr>ev_status = Some ''downloading'', total_bytes = None, downloaded_bytes = Some 8192,
     percent_str = None, fragment_count = None, fragment_index = None\<rparr>"

definition PENDING_LOG :: download_log where
  "PENDING_LOG = \<lparr>log_user_id = 7, log_url = ''https://example.com/v'', log_title = None,
     log_og_title = None, log_og_description = None, log_status = ''pending'', log_progress = 0,
     log_message = Some MsgQueued, log_completed_at = None\<rparr>"

definition RUNNING_STATE :: app_state where
  "RUNNING_STATE = \<lparr>db = [1 \<mapsto> PENDING_LOG\<lparr>log_status := ''downloading'', log_message := Some MsgPreparing\<rparr>],
     job_results = Map.empty\<rparr>"



text \<open>
  A job on a URL that is not of the site, a delegate that reports two fragments and the
  end, one that fails after the first fragment with an exception whose text is empty, and
  a cancellation predicate that is true at the second event.
\<close>

definition LAST_FRAGMENT_EVENT :: event where
  "LAST_FRAGMENT_EVENT = FRAGMENT_EVENT\<lparr>fragment_index := Some 2\<rparr>"

definition FINISHED_EVENT :: event where
  "FINISHED_EVENT = \<lparr>ev_status = Some ''finished'', total_bytes = None, downloaded_bytes = None,
     percent_str = None, fragment_count = None, fragment_index = None\<rparr>"

definition GENERIC_URL :: string where
  "GENERIC_URL = ''https://example.com/v''"

definition ENV_OK :: env where
  "ENV_OK = \<lparr>fetch_missav_page = (\<lambda>u. Inr []),
     ydl_download = (\<lambda>u. ([], None)),
     ydl_extract_info = (\<lambda>u. ([FRAGMENT_EVENT, LAST_FRAGMENT_EVENT, FINISHED_EVENT], Inr (Some (Some ''v'', None)))),
     mkdtemp = [''/'', ''tmp'', ''t1''],
     glob_tmpdir = [[''/'', ''tmp'', ''t1'', ''v.mkv'']],
     is_file = (\<lambda>p. True), path_exists = (\<lambda>p. True), zip_write = (\<lambda>p fs. None), utcnow = 1000\<rparr>"



definition PENDING_STATE :: app_state where
  "PENDING_STATE = \<lparr>db = [1 \<mapsto> PENDING_LOG], job_results = Map.empty\<rparr>"


definition DONE_STATE :: app_state where
  "DONE_STATE = fst (run_download_job ENV_OK 1 GENERIC_URL ''video'' 7 PENDING_STATE)"

definition SERVED :: file_response where
  "SERVED = \<lparr>resp_path = [''/'', ''tmp'', ''t1'', ''v.mkv''], resp_filename = ''v.mkv'',
     resp_media_type = ''application/octet-stream''\<rparr>"

section \<open>Properties\<close>

subsection \<open>Matching literals\<close>










subsection \<open>The dispatch\<close>






lemma dispatch_examples:
  "begins_with_missav ''  HTTPS://WWW.MissAV.ws/abc ''"
  "\<not> begins_with_missav ''https://missav.ai''"
  "\<not> begins_with_missav ''https://missav.com/abc''"
  "\<not> begins_with_missav ''see https://missav.ai/abc''"
  by code_simp+

subsection \<open>The file classifier\<close>

lemma video_not_sub: "is_video f \<Longrightarrow> \<not> is_sub f"
  by (auto simp: is_video_def is_sub_def VIDEO_EXTS_def SUB_EXTS_def)

lemma split_loop_eq:
  "split_loop isf fs v subs =
     ((case v of Some x \<Rightarrow> Some x | None \<Rightarrow> List.find is_video (filter isf fs)),
      subs @ filter is_sub (filter isf fs))"
proof (induction fs arbitrary: v subs)
  case Nil
  then show ?case by (simp split: option.splits)
next
  case (Cons f fs)
  show ?case
  proof (cases "isf f")
    case False
    then show ?thesis using Cons.IH by (cases v) simp_all
  next
    case True
    then show ?thesis
      using Cons.IH video_not_sub[of f]
      by (cases v) (auto simp: Let_def is_video_def is_sub_def)
  qed
qed

lemma split_video_and_subs_classify: "split_video_and_subs isf files = classify isf files"
  by (simp add: split_video_and_subs_def classify_def split_loop_eq filter_sort)

lemma sort_of_permutation: "mset xs = mset ys \<Longrightarrow> sort xs = sort (ys :: path list)"
  by (metis properties_for_sort mset_sort sorted_sort)

lemma find_sorted_least:
  "sorted xs \<Longrightarrow> List.find P xs = Some v \<Longrightarrow> v \<in> set xs \<and> P v \<and> (\<forall>f\<in>set xs. P f \<longrightarrow> v \<le> f)"
  by (induction xs) (auto split: if_splits)

lemma classify_primary_least:
  assumes "fst (classify isf files) = Some v"
  shows "v \<in> set files \<and> isf v \<and> is_video v \<and> (\<forall>f\<in>set files. isf f \<and> is_video f \<longrightarrow> v \<le> f)"
  using find_sorted_least[of "sort (filter isf files)" is_video v] assms
  by (auto simp: classify_def)

text \<open>
  C9. On every permutation of a list of paths the classifier gives the same result: the
  primary media file is the first path, in sorted order, that is a file with a media
  extension, and the subtitles are the files with a subtitle extension, in sorted order;
  other files are ignored.
\<close>

theorem classify_permutation_invariant:
  assumes "mset files' = mset files"
  shows "split_video_and_subs isf files' = split_video_and_subs isf files \<and>
         split_video_and_subs isf files = classify isf files"
proof -
  have "sort files' = sort files"
    using assms by (rule sort_of_permutation)
  then have "split_video_and_subs isf files' = split_video_and_subs isf files"
    by (simp add: split_video_and_subs_def)
  then show ?thesis
    by (simp add: split_video_and_subs_classify)
qed

theorem classify_permutation_invariant_witness:
  "mset [[''tmp'', ''b.mkv''], [''tmp'', ''a.en.srt''], [''tmp'', ''a.MP4''], [''tmp'', ''a.jpg'']]
     = mset [[''tmp'', ''a.jpg''], [''tmp'', ''a.MP4''], [''tmp'', ''b.mkv''], [''tmp'', ''a.en.srt'']] \<and>
   split_video_and_subs (\<lambda>f. True)
       [[''tmp'', ''b.mkv''], [''tmp'', ''a.en.srt''], [''tmp'', ''a.MP4''], [''tmp'', ''a.jpg'']]
     = split_video_and_subs (\<lambda>f. True)
       [[''tmp'', ''a.jpg''], [''tmp'', ''a.MP4''], [''tmp'', ''b.mkv''], [''tmp'', ''a.en.srt'']] \<and>
   split_video_and_subs (\<lambda>f. True)
       [[''tmp'', ''a.jpg''], [''tmp'', ''a.MP4''], [''tmp'', ''b.mkv''], [''tmp'', ''a.en.srt'']]
     = (Some [''tmp'', ''a.MP4''], [[''tmp'', ''a.en.srt'']])"
proof -
  have h: "mset [[''tmp'', ''b.mkv''], [''tmp'', ''a.en.srt''], [''tmp'', ''a.MP4''], [''tmp'', ''a.jpg'']]
     = mset [[''tmp'', ''a.jpg''], [''tmp'', ''a.MP4''], [''tmp'', ''b.mkv''], [''tmp'', ''a.en.srt'']]"
    by simp
  have v: "split_video_and_subs (\<lambda>f. True)
       [[''tmp'', ''a.jpg''], [''tmp'', ''a.MP4''], [''tmp'', ''b.mkv''], [''tmp'', ''a.en.srt'']]
     = (Some [''tmp'', ''a.MP4''], [[''tmp'', ''a.en.srt'']])"
    by code_simp
  show ?thesis
    using h v classify_permutation_invariant[OF h, of "\<lambda>f. True"] by simp
qed

subsection \<open>The unpacker\<close>

lemma ord_lits: "ord CHR ''0'' = 48" "ord CHR ''9'' = 57" "ord CHR ''a'' = 97" "ord CHR ''e'' = 101"
  by (simp_all add: ord_def)

lemma code_char_isword: "code_char c \<Longrightarrow> isword c"
  by (auto simp: code_char_def in_range_def ord_lits isword_def isalnum_def isdecimal_def)

lemma rmatch_unpack:
  "rmatch [R UNPACK_RE] bef (c # cs) [] =
     (if code_char c \<and> (case bef of [] \<Rightarrow> True | b # _ \<Rightarrow> \<not> isword b)
         \<and> (case cs of [] \<Rightarrow> True | a # _ \<Rightarrow> \<not> isword a)
      then Some (c # bef, cs, [(1, [c])]) else None)"
  using code_char_isword[of c]
  by (auto simp: UNPACK_RE_def boundary_def code_char_def split: list.splits)

lemma char_le_iff: "(c::char) \<le> d \<longleftrightarrow> ord c \<le> ord d"
  by (simp add: ord_def less_eq_char_def)

lemma char_less_iff: "(c::char) < d \<longleftrightarrow> ord c < ord d"
  by (simp add: ord_def less_char_def)

lemma ord_inj: "ord c = ord d \<longleftrightarrow> c = d"
  by (simp add: ord_def)

lemma single_le: "[a] \<le> [c] \<longleftrightarrow> ord a \<le> ord (c::char)"
  by (auto simp: char_less_iff ord_inj[symmetric] simp del: ord_inj)

lemma getitem_nat: "i < length xs \<Longrightarrow> getitem xs (int i) = Inr (xs ! i)"
  by (simp add: getitem_def)

lemma repl_digit:
  assumes "in_range CHR ''0'' CHR ''9'' c"
  shows "repl parts \<lparr>m_start = s, group0 = [c], m_groups = g\<rparr>
           = Inr (if ord c - 48 < length parts then parts ! (ord c - 48) else [c])"
proof -
  from assms have r: "48 \<le> ord c" "ord c \<le> 57" by (simp_all add: in_range_def ord_lits)
  then have d: "str_isdigit [c]" by (simp add: str_isdigit_def isdigit_def isdecimal_def)
  from r have i: "py_int [c] = Inr (int (ord c - 48))"
    by (simp add: py_int_def isdecimal_def)
  show ?thesis
    using d i by (simp add: repl_def ebind_def getitem_nat)
qed

lemma repl_letter:
  assumes "in_range CHR ''a'' CHR ''e'' c"
  shows "repl parts \<lparr>m_start = s, group0 = [c], m_groups = g\<rparr>
           = Inr (if 10 + (ord c - 97) < length parts then parts ! (10 + (ord c - 97)) else [c])"
proof -
  from assms have r: "97 \<le> ord c" "ord c \<le> 101" by (simp_all add: in_range_def ord_lits)
  then have d: "\<not> str_isdigit [c]" by (simp add: str_isdigit_def isdigit_def isdecimal_def)
  from r have "CHR ''a'' \<le> c \<and> c \<le> CHR ''e''" by (simp add: char_le_iff ord_lits)
  then have l: "''a'' \<le> [c] \<and> [c] \<le> ''e''" by (auto simp: le_less)
  have o: "py_ord [c] = Inr (int (ord c))" by (simp add: py_ord_def)
  from r have e: "int (ord c) - 87 = int (10 + (ord c - 97))" by simp
  show ?thesis
    using d l o by (simp add: repl_def ebind_def Let_def e getitem_nat del: of_nat_add)
qed

lemma repl_code:
  assumes "code_char c"
  shows "repl parts \<lparr>m_start = s, group0 = [c], m_groups = g\<rparr>
           = Inr (if code_index c < length parts then parts ! code_index c else [c])"
proof (cases "in_range CHR ''0'' CHR ''9'' c")
  case True
  then show ?thesis by (simp add: repl_digit code_index_def)
next
  case False
  with assms have "in_range CHR ''a'' CHR ''e'' c" by (simp add: code_char_def)
  with False show ?thesis by (simp add: repl_letter code_index_def)
qed

lemma alone_at:
  "alone (rev bef @ c # cs) (length bef) \<longleftrightarrow>
     (case bef of [] \<Rightarrow> True | b # _ \<Rightarrow> \<not> isword b) \<and> (case cs of [] \<Rightarrow> True | a # _ \<Rightarrow> \<not> isword a)"
  by (cases bef; cases cs) (simp_all add: alone_def nth_append)

lemma unpack_char_at:
  "unpack_char parts (rev bef @ c # cs) (length bef) =
     (if code_char c \<and> (case bef of [] \<Rightarrow> True | b # _ \<Rightarrow> \<not> isword b)
         \<and> (case cs of [] \<Rightarrow> True | a # _ \<Rightarrow> \<not> isword a) \<and> code_index c < length parts
      then parts ! code_index c else [c])"
  by (simp add: unpack_char_def alone_at nth_append)

lemma sub_from_unpack:
  "sub_from UNPACK_RE (repl parts) bef aft =
     Inr (concat (map (unpack_char parts (rev bef @ aft)) [length bef ..< length bef + length aft]))"
proof (induction aft arbitrary: bef)
  case Nil
  then show ?case by simp
next
  case (Cons c cs)
  have range: "[length bef ..< length bef + length (c # cs)]
      = length bef # [length (c # bef) ..< length (c # bef) + length cs]"
    by (subst upt_conv_Cons) simp_all
  have ih: "sub_from UNPACK_RE (repl parts) (c # bef) cs =
     Inr (concat (map (unpack_char parts (rev bef @ c # cs)) [length (c # bef) ..< length (c # bef) + length cs]))"
    using Cons.IH[of "c # bef"] by simp
  show ?case
    unfolding range
    by (simp add: rmatch_unpack repl_code ih unpack_char_at del: upt_Suc)
qed

lemma unpack_is_spec: "unpack_missav_packed_js packed dict_str = Inr (unpack_spec packed dict_str)"
  using sub_from_unpack[of "split dict_str ''|''" "[]" packed]
  by (simp add: unpack_missav_packed_js_def re_sub_def unpack_spec_def)

text \<open>
  C2. For every packed text and every dictionary the unpacker returns, without raising,
  the text in which each code character that stands alone at word boundaries is replaced
  by its dictionary entry, when the dictionary has that entry, and everything else is
  kept.
\<close>

theorem unpack_eq_spec: "unpack_missav_packed_js packed dict_str = Inr (unpack_spec packed dict_str)"
  by (rule unpack_is_spec)

theorem unpack_eq_spec_witness:
  "unpack_missav_packed_js ''8://7.6/5-4-3-2-1/e.0 a1 x_2 f'' ''m3u8|1a|2b|3|4|5|com|surrit|https|video|ts''
     = Inr ''https://surrit.com/5-4-3-2b-1a/e.m3u8 a1 x_2 f''"
proof -
  have "unpack_spec ''8://7.6/5-4-3-2-1/e.0 a1 x_2 f'' ''m3u8|1a|2b|3|4|5|com|surrit|https|video|ts''
     = ''https://surrit.com/5-4-3-2b-1a/e.m3u8 a1 x_2 f''"
    by code_simp
  then show ?thesis
    using unpack_eq_spec[of "''8://7.6/5-4-3-2-1/e.0 a1 x_2 f''"
        "''m3u8|1a|2b|3|4|5|com|surrit|https|video|ts''"]
    by simp
qed

subsection \<open>The dictionary-only strategy\<close>

lemma index_from_first_pos:
  "index_from i xs x = (if x \<in> set xs then Some (i + first_pos xs x) else None)"
  by (induction xs arbitrary: i) (auto simp: first_pos_def)

lemma first_pos_le: "first_pos xs x \<le> length xs"
  by (simp add: first_pos_def length_takeWhile_le)

lemma slice_nat: "a \<le> b \<Longrightarrow> b \<le> length xs \<Longrightarrow> slice xs (int a) (int b) = take (b - a) (drop a xs)"
  by (simp add: slice_def clip_def)

lemma dict_only_try_spec:
  assumes "''https'' \<in> set parts" "''playlist'' \<in> set parts"
  shows "dict_only_try parts = Inr (dict_only_spec parts)"
proof (cases "''com'' \<in> set parts")
  case False
  then show ?thesis using assms
    by (simp add: dict_only_try_def index_def index_from_first_pos ebind_def dict_only_spec_def)
next
  case True
  show ?thesis
  proof (cases "first_pos parts ''com'' + 2 \<le> first_pos parts ''https''")
    case False
    then show ?thesis using assms True
      by (auto simp: dict_only_try_def index_def index_from_first_pos ebind_def dict_only_spec_def)
  next
    case le: True
    have s1: "slice parts (int (first_pos parts ''com'')) (int (first_pos parts ''https''))
        = take (first_pos parts ''https'' - first_pos parts ''com'') (drop (first_pos parts ''com'') parts)"
      using le first_pos_le[of parts "''https''"] by (intro slice_nat) simp_all
    have s2: "6 \<le> length parts \<Longrightarrow> slice parts 1 6 = take 5 (drop 1 parts)"
      using slice_nat[of 1 6 parts] by simp
    show ?thesis using assms True le
      by (auto simp: dict_only_try_def index_def index_from_first_pos ebind_def dict_only_spec_def
          Let_def s1 s2)
  qed
qed

lemma dict_only_is_spec:
  "extract_missav_m3u8_from_dict_only webpage =
     (case re_search DICT_ONLY_RE webpage of
        None \<Rightarrow> Inr None
      | Some m \<Rightarrow> Inr (dict_only_spec (split (''m3u8|'' @ group m 1) ''|'')))"
proof (cases "re_search DICT_ONLY_RE webpage")
  case None
  then show ?thesis by (simp add: extract_missav_m3u8_from_dict_only_def)
next
  case (Some m)
  show ?thesis
  proof (cases "''https'' \<in> set (split (''m3u8|'' @ group m 1) ''|'') \<and> ''playlist'' \<in> set (split (''m3u8|'' @ group m 1) ''|'')")
    case True
    then show ?thesis using Some
      by (simp add: extract_missav_m3u8_from_dict_only_def Let_def dict_only_try_spec)
  next
    case False
    then show ?thesis using Some
      by (auto simp: extract_missav_m3u8_from_dict_only_def Let_def dict_only_spec_def)
  qed
qed

text \<open>
  C3. When the dictionary-only strategy finds a dictionary whose tokens contain \<open>https\<close>
  and \<open>playlist\<close>, with \<open>com\<close> before \<open>https\<close> and at least one token between them,
  and at least six tokens, it returns \<open>https://<origin>/<path>/playlist.m3u8\<close>; in every
  other case it returns no result; it never raises. (The positions of \<open>com\<close> and
  \<open>https\<close> are those of their first occurrences.)
\<close>

theorem dict_only_eq_spec:
  "extract_missav_m3u8_from_dict_only webpage =
     (case re_search DICT_ONLY_RE webpage of
        None \<Rightarrow> Inr None
      | Some m \<Rightarrow> Inr (dict_only_spec (split (''m3u8|'' @ group m 1) ''|'')))"
  by (rule dict_only_is_spec)

theorem dict_only_eq_spec_witness:
  "extract_missav_m3u8_from_dict_only
     (''x = '' @ squote # ''m3u8|1|2|3|4|5|com|surrit|https|video|playlist|source''
        @ squote # ''.split('' @ squote # ''|'' @ squote # '')'')
   = Inr (Some ''https://surrit.com/5-4-3-2-1/playlist.m3u8'')"
proof -
  have "(case re_search DICT_ONLY_RE
           (''x = '' @ squote # ''m3u8|1|2|3|4|5|com|surrit|https|video|playlist|source''
              @ squote # ''.split('' @ squote # ''|'' @ squote # '')'') of
          None \<Rightarrow> Inr None
        | Some m \<Rightarrow> Inr (dict_only_spec (split (''m3u8|'' @ group m 1) ''|'')))
      = (Inr (Some ''https://surrit.com/5-4-3-2-1/playlist.m3u8'') :: py_error + string option)"
    by code_simp
  then show ?thesis
    by (rule trans[OF dict_only_eq_spec])
qed

subsection \<open>The legacy strategy\<close>

lemma slice_take_drop: "slice xs (int a) (int b) = take (b - a) (drop a xs)"
proof (cases "a < length xs")
  case True
  then have "min (length xs) b - a = min (b - a) (length xs - a)" by auto
  with True show ?thesis
    by (simp add: slice_def clip_def min_absorb2) (metis length_drop take_take take_all order_refl min.commute)
next
  case False
  then show ?thesis by (simp add: slice_def clip_def)
qed

lemma split_acc_ne: "split_acc sep acc s \<noteq> []"
  by (induction sep acc s rule: split_acc.induct) auto

lemma getitem_0: "xs \<noteq> [] \<Longrightarrow> getitem xs 0 = Inr (hd xs)"
  by (cases xs) (simp_all add: getitem_def)

lemma first_pos_nth: "x \<in> set xs \<Longrightarrow> first_pos xs x < length xs \<and> xs ! first_pos xs x = x"
  by (induction xs) (auto simp: first_pos_def)

lemma legacy_words_url:
  assumes "''video'' \<in> set ws" "1 \<le> first_pos ws ''video''" "first_pos ws ''video'' + 1 < length ws"
  shows "legacy_words ws = Inr (Some (legacy_url ws))"
proof -
  let ?i = "first_pos ws ''video''"
  have i: "index ws ''video'' = Inr ?i"
    using assms(1) by (simp add: index_def index_from_first_pos)
  have a: "int ?i - 1 = int (?i - 1)" using assms(2) by simp
  have b: "int ?i + 1 = int (?i + 1)" by simp
  have g1: "getitem ws (int ?i - 1) = Inr (ws ! (?i - 1))"
    unfolding a using assms(3) by (intro getitem_nat) simp
  have g2: "getitem ws (int ?i + 1) = Inr (ws ! (?i + 1))"
    unfolding b using assms(3) by (intro getitem_nat) simp
  have g3: "getitem ws (int ?i) = Inr ''video''"
    using first_pos_nth[OF assms(1)] by (simp add: getitem_nat)
  have s1: "slice ws 0 5 = take 5 ws"
    using slice_take_drop[of ws 0 5] by simp
  have s2: "slice ws 5 (int ?i - 1) = take (?i - 1 - 5) (drop 5 ws)"
    unfolding a using slice_take_drop[of ws 5 "?i - 1"] by simp
  show ?thesis
    using assms(1) by (simp add: legacy_words_def i ebind_def g1 g2 g3 s1 s2 legacy_url_def Let_def)
qed

lemma legacy_try_words:
  assumes "split webpage ''m3u8|'' = pre # after # rest"
  shows "legacy_try webpage = legacy_words (split (hd (split after ''|playlist|source'')) ''|'')"
proof -
  have "getitem (split webpage ''m3u8|'') 1 = Inr after"
    using assms by (simp add: getitem_def)
  moreover have "getitem (split after ''|playlist|source'') 0 = Inr (hd (split after ''|playlist|source''))"
    by (simp add: getitem_0 split_def split_acc_ne)
  ultimately show ?thesis
    by (simp add: legacy_try_def ebind_def)
qed

text \<open>
  C5, as the claim states it, fails on the tokens of the fixture: the program returns a
  URL that ends in \<open>/ts/video.m3u8\<close>, the claim one that ends in \<open>/ts.m3u8\<close>.
\<close>

theorem legacy_claim_counterexample:
  "legacy_try ''m3u8|1|2|3|4|5|com|surrit|https|video|ts|playlist|source''
     = Inr (Some ''https://surrit.com/5-4-3-2-1/ts/video.m3u8'') \<and>
   legacy_claimed_url (split ''1|2|3|4|5|com|surrit|https|video|ts'' ''|'')
     = ''https://surrit.com/5-4-3-2-1/ts.m3u8'' \<and>
   legacy_try ''m3u8|1|2|3|4|5|com|surrit|https|video|ts|playlist|source''
     \<noteq> Inr (Some (legacy_claimed_url (split ''1|2|3|4|5|com|surrit|https|video|ts'' ''|'')))"
  by code_simp

text \<open>
  C5, amended. For every list of intervening tokens in which \<open>video\<close> first occurs after
  the first token and before the last one, the legacy strategy returns
  \<open><scheme>://<host>/<path>/<format>/video.m3u8\<close>, with the scheme, host, path and format
  of the claim.
\<close>

theorem legacy_url_shape:
  assumes "split webpage ''m3u8|'' = pre # after # rest"
    and "ws = split (hd (split after ''|playlist|source'')) ''|''"
    and "''video'' \<in> set ws"
    and "1 \<le> first_pos ws ''video''"
    and "first_pos ws ''video'' + 1 < length ws"
  shows "legacy_try webpage = Inr (Some (legacy_url ws))"
  using legacy_try_words[OF assms(1)] legacy_words_url[OF assms(3,4,5)] assms(2) by simp

theorem legacy_url_shape_witness:
  "legacy_try ''m3u8|1|2|3|4|5|com|surrit|https|video|ts|playlist|source''
     = Inr (Some ''https://surrit.com/5-4-3-2-1/ts/video.m3u8'')"
proof -
  let ?ws = "[''1'', ''2'', ''3'', ''4'', ''5'', ''com'', ''surrit'', ''https'', ''video'', ''ts'']"
  have h1: "split ''m3u8|1|2|3|4|5|com|surrit|https|video|ts|playlist|source'' ''m3u8|''
      = [] # ''1|2|3|4|5|com|surrit|https|video|ts|playlist|source'' # []"
    by code_simp
  have h2: "?ws = split (hd (split ''1|2|3|4|5|com|surrit|https|video|ts|playlist|source'' ''|playlist|source'')) ''|''"
    by code_simp
  have h3: "''video'' \<in> set ?ws" by simp
  have h4: "1 \<le> first_pos ?ws ''video''" by code_simp
  have h5: "first_pos ?ws ''video'' + 1 < length ?ws" by code_simp
  have v: "legacy_url ?ws = ''https://surrit.com/5-4-3-2-1/ts/video.m3u8''" by code_simp
  show ?thesis
    using legacy_url_shape[OF h1 h2 h3 h4 h5] v by simp
qed

subsection \<open>The example scenario\<close>

lemma search_from_lit_absent: "c \<notin> set aft \<Longrightarrow> search_from (Seq (lit c) r) bef aft = None"
  by (induction aft arbitrary: bef) (auto simp: match_at_def lit_def)

lemma re_search_lit_absent: "c \<notin> set s \<Longrightarrow> re_search (Seq (lit c) r) s = None"
  by (simp add: re_search_def search_from_lit_absent)

lemma packed_absent:
  assumes "CHR ''}'' \<notin> set w" "squote \<notin> set w"
  shows "extract_missav_m3u8_from_packed w = Inr None"
  using assms
  by (simp add: extract_missav_m3u8_from_packed_def PACKED_RE_def FALLBACK_RE_def re_search_lit_absent)

lemma dict_only_absent:
  assumes "squote \<notin> set w"
  shows "extract_missav_m3u8_from_dict_only w = Inr None"
  using assms
  by (simp add: extract_missav_m3u8_from_dict_only_def DICT_ONLY_RE_def re_search_lit_absent)

lemma find_from_ge: "find_from i sub s = int m \<Longrightarrow> i \<le> m"
proof (induction s arbitrary: i)
  case Nil
  then show ?case by (simp split: if_splits)
next
  case (Cons c cs)
  show ?case
  proof (cases "prefix sub (c # cs)")
    case True
    with Cons.prems show ?thesis by simp
  next
    case False
    with Cons.prems have "find_from (Suc i) sub cs = int m" by simp
    from Cons.IH[OF this] show ?thesis by simp
  qed
qed

lemma split_acc_first:
  assumes "sep \<noteq> []" "find_from i sep s = int (i + n)"
  shows "split_acc sep acc s = (rev acc @ take n s) # split_acc sep [] (drop (n + length sep) s)"
  using assms
proof (induction s arbitrary: acc i n)
  case Nil
  then show ?case by simp
next
  case (Cons c cs)
  show ?case
  proof (cases "prefix sep (c # cs)")
    case True
    with Cons.prems have "n = 0" by simp
    with True Cons.prems(1) show ?thesis by simp
  next
    case False
    with Cons.prems have f: "find_from (Suc i) sep cs = int (i + n)" by simp
    from find_from_ge[OF f] obtain n' where n: "n = Suc n'" by (cases n) auto
    with f have "find_from (Suc i) sep cs = int (Suc i + n')" by simp
    from Cons.IH[OF Cons.prems(1) this, of "c # acc"] False n show ?thesis by simp
  qed
qed

lemma split_first:
  assumes "sep \<noteq> []" "find s sep = int n"
  shows "split s sep = take n s # split_acc sep [] (drop (n + length sep) s)"
  using split_acc_first[of sep 0 s n "[]"] assms by (simp add: split_def find_def)

lemma hd_split_acc: "hd (split_acc sep acc s) = rev acc @ hd (split_acc sep [] s)"
proof (induction s arbitrary: acc)
  case Nil
  then show ?case by simp
next
  case (Cons c cs)
  show ?case
    using Cons.IH[of "c # acc"] Cons.IH[of "[c]"] by (cases "sep = []") simp_all
qed

lemma after_fixture:
  "hd (split_acc ''m3u8|'' [] (''1|2|3|4|5|com|surrit|https|video|ts|playlist|source'' @ post))
     = ''1|2|3|4|5|com|surrit|https|video|ts|playlist|source'' @ hd (split_acc ''m3u8|'' [] post)"
  by (simp add: hd_split_acc[of _ "_ # _"])

lemma chunk_fixture:
  "hd (split (''1|2|3|4|5|com|surrit|https|video|ts|playlist|source'' @ y) ''|playlist|source'')
     = ''1|2|3|4|5|com|surrit|https|video|ts''"
  by (simp add: split_def)

lemma getitem_1: "ys \<noteq> [] \<Longrightarrow> getitem (x # ys) 1 = Inr (hd ys)"
  by (cases ys) (simp_all add: getitem_def)

lemma legacy_words_fixture:
  "legacy_words (split ''1|2|3|4|5|com|surrit|https|video|ts'' ''|'')
     = Inr (Some ''https://surrit.com/5-4-3-2-1/ts/video.m3u8'')"
  by code_simp

lemma legacy_try_fixture:
  assumes "find (pre @ LEGACY_FIXTURE @ post) ''m3u8|'' = int (length pre)"
  shows "legacy_try (pre @ LEGACY_FIXTURE @ post) = Inr (Some ''https://surrit.com/5-4-3-2-1/ts/video.m3u8'')"
proof -
  let ?T = "''1|2|3|4|5|com|surrit|https|video|ts|playlist|source''"
  have "split (pre @ LEGACY_FIXTURE @ post) ''m3u8|''
      = take (length pre) (pre @ LEGACY_FIXTURE @ post)
        # split_acc ''m3u8|'' [] (drop (length pre + length ''m3u8|'') (pre @ LEGACY_FIXTURE @ post))"
    using assms by (intro split_first) simp_all
  then have sp: "split (pre @ LEGACY_FIXTURE @ post) ''m3u8|'' = pre # split_acc ''m3u8|'' [] (?T @ post)"
    by (simp add: LEGACY_FIXTURE_def)
  have g1: "getitem (split (pre @ LEGACY_FIXTURE @ post) ''m3u8|'') 1 = Inr (?T @ hd (split_acc ''m3u8|'' [] post))"
    unfolding sp using after_fixture[of post] by (simp add: getitem_1 split_acc_ne)
  have g2: "getitem (split (?T @ hd (split_acc ''m3u8|'' [] post)) ''|playlist|source'') 0
      = Inr ''1|2|3|4|5|com|surrit|https|video|ts''"
    using chunk_fixture[of "hd (split_acc ''m3u8|'' [] post)"]
    by (simp add: getitem_0 split_def split_acc_ne)
  show ?thesis
    unfolding legacy_try_def g1 by (simp only: ebind_def sum.case g2 legacy_words_fixture)
qed

lemma missav_m3u8_url_fixture:
  assumes "squote \<notin> set pre \<union> set post" "CHR ''}'' \<notin> set pre \<union> set post"
    and "find (pre @ LEGACY_FIXTURE @ post) ''m3u8|'' = int (length pre)"
  shows "missav_m3u8_url (pre @ LEGACY_FIXTURE @ post) = Inr (Some ''https://surrit.com/5-4-3-2-1/ts/video.m3u8'')"
proof -
  let ?w = "pre @ LEGACY_FIXTURE @ post"
  have q: "squote \<notin> set ?w" using assms(1) by (simp add: LEGACY_FIXTURE_def squote_def)
  have b: "CHR ''}'' \<notin> set ?w" using assms(2) by (simp add: LEGACY_FIXTURE_def)
  have p: "extract_missav_m3u8_from_packed ?w = Inr None" using b q by (rule packed_absent)
  have d: "extract_missav_m3u8_from_dict_only ?w = Inr None" using q by (rule dict_only_absent)
  show ?thesis
    by (simp add: missav_m3u8_url_def p d ebind_def step2_def step3_def step4_def
        legacy_try_fixture[OF assms(3)])
qed

lemma title_naac: "missav_filename_from_url ''https://missav.ai/dm1/naac-032'' = Inr ''naac-032''"
  by code_simp

text \<open>
  C1, as the claim states it, fails on the markup that is the fixture alone: the extractor
  returns the URL with the format segment \<open>ts\<close> before \<open>video.m3u8\<close>.
\<close>

theorem fixture_claim_counterexample:
  "manifest_of (extract_missav_m3u8_and_title LEGACY_FIXTURE ''https://missav.ai/dm1/naac-032'')
     = Some ''https://surrit.com/5-4-3-2-1/ts/video.m3u8'' \<and>
   manifest_of (extract_missav_m3u8_and_title LEGACY_FIXTURE ''https://missav.ai/dm1/naac-032'')
     \<noteq> Some ''https://surrit.com/5-4-3-2-1/video.m3u8''"
proof -
  have "find ([] @ LEGACY_FIXTURE @ []) ''m3u8|'' = int (length ([] :: string))"
    by code_simp
  then have "missav_m3u8_url ([] @ LEGACY_FIXTURE @ []) = Inr (Some ''https://surrit.com/5-4-3-2-1/ts/video.m3u8'')"
    by (intro missav_m3u8_url_fixture) simp_all
  then show ?thesis
    by (simp add: title_naac extract_missav_m3u8_and_title_def ebind_def manifest_of_def)
qed

text \<open>
  C1, amended. The title derived from \<open>https://missav.ai/dm1/naac-032\<close> is \<open>naac-032\<close>,
  and for every markup that contains the fixture as its first occurrence of \<open>m3u8|\<close> and
  has no single quote and no closing brace around it (so that the first two strategies find
  nothing), the extractor returns \<open>https://surrit.com/5-4-3-2-1/ts/video.m3u8\<close>.
\<close>

theorem fixture_manifest:
  assumes "squote \<notin> set pre \<union> set post" "CHR ''}'' \<notin> set pre \<union> set post"
    and "find (pre @ LEGACY_FIXTURE @ post) ''m3u8|'' = int (length pre)"
  shows "missav_filename_from_url ''https://missav.ai/dm1/naac-032'' = Inr ''naac-032'' \<and>
         manifest_of (extract_missav_m3u8_and_title (pre @ LEGACY_FIXTURE @ post) ''https://missav.ai/dm1/naac-032'')
           = Some ''https://surrit.com/5-4-3-2-1/ts/video.m3u8''"
  by (simp add: title_naac extract_missav_m3u8_and_title_def missav_m3u8_url_fixture[OF assms]
      ebind_def manifest_of_def)

theorem fixture_manifest_witness:
  "squote \<notin> set ''<p>x</p> '' \<union> set '' m3u8|z'' \<and>
   CHR ''}'' \<notin> set ''<p>x</p> '' \<union> set '' m3u8|z'' \<and>
   find (''<p>x</p> '' @ LEGACY_FIXTURE @ '' m3u8|z'') ''m3u8|'' = int (length ''<p>x</p> '') \<and>
   manifest_of (extract_missav_m3u8_and_title (''<p>x</p> '' @ LEGACY_FIXTURE @ '' m3u8|z'')
       ''https://missav.ai/dm1/naac-032'')
     = Some ''https://surrit.com/5-4-3-2-1/ts/video.m3u8''"
proof -
  have h1: "squote \<notin> set ''<p>x</p> '' \<union> set '' m3u8|z''" by (simp add: squote_def)
  have h2: "CHR ''}'' \<notin> set ''<p>x</p> '' \<union> set '' m3u8|z''" by simp
  have h3: "find (''<p>x</p> '' @ LEGACY_FIXTURE @ '' m3u8|z'') ''m3u8|'' = int (length ''<p>x</p> '')"
    by code_simp
  show ?thesis
    using h1 h2 h3 fixture_manifest[OF h1 h2 h3] by simp
qed

subsection \<open>The order of the strategies\<close>

lemma rmatch_consumes:
  "rmatch k bef aft g = Some (bef', aft', g') \<Longrightarrow> \<exists>cs. aft = cs @ aft' \<and> bef' = rev cs @ bef"
proof (induction k bef aft g arbitrary: bef' aft' g' rule: rmatch.induct)
  case (3 p k bef c cs g)
  then show ?case by (auto split: if_splits)
next
  case (6 a b k bef aft g)
  then show ?case by (auto split: option.splits)
next
  case (7 r k bef aft g)
  then show ?case by (auto split: option.splits)
next
  case (8 r n k bef aft g)
  then show ?case by (auto split: if_splits)
next
  case (11 k bef aft g)
  then show ?case by (auto split: if_splits)
qed auto

lemma match_at_group0:
  assumes "match_at r bef aft = Some m"
  shows "\<exists>aft'. aft = group0 m @ aft'"
proof -
  from assms obtain bef' aft' g where r: "rmatch [R r] bef aft [] = Some (bef', aft', g)"
    and m: "group0 m = rev (take (length aft - length aft') bef')"
    by (auto simp: match_at_def split: option.splits)
  from rmatch_consumes[OF r] obtain cs where "aft = cs @ aft'" "bef' = rev cs @ bef" by blast
  with m show ?thesis by auto
qed

lemma search_from_match_at:
  "search_from r bef aft = Some m \<Longrightarrow> \<exists>bef' aft'. match_at r bef' aft' = Some m"
  by (induction aft arbitrary: bef) (auto split: option.splits)

lemma match_at_lit_nonempty:
  assumes "match_at (Seq (Seq (lit c) x) y) bef aft = Some m"
  shows "group0 m \<noteq> []"
proof -
  from assms obtain bef' aft' g where r: "rmatch [R (Seq (Seq (lit c) x) y)] bef aft [] = Some (bef', aft', g)"
    and m: "group0 m = rev (take (length aft - length aft') bef')"
    by (auto simp: match_at_def split: option.splits)
  from r obtain cs0 where a: "aft = c # cs0" and r': "rmatch [R x, R y] (c # bef) cs0 [] = Some (bef', aft', g)"
    by (cases aft) (auto simp: lit_def split: if_splits)
  from rmatch_consumes[OF r'] obtain cs where "cs0 = cs @ aft'" "bef' = rev cs @ c # bef" by blast
  with a m show ?thesis by simp
qed

lemma m3u8_search_nonempty: "re_search M3U8_RE s = Some m \<Longrightarrow> group0 m \<noteq> []"
  unfolding re_search_def
  by (drule search_from_match_at) (auto simp: M3U8_RE_def str_def dest: match_at_lit_nonempty)

lemma unpack_and_search_result:
  "\<exists>x. unpack_and_search packed dict_str = Inr x \<and> (\<forall>u. x = Some u \<longrightarrow> u \<noteq> [])"
  by (auto simp: unpack_and_search_def unpack_is_spec ebind_def dest: m3u8_search_nonempty)

lemma packed_result:
  "\<exists>x. extract_missav_m3u8_from_packed w = Inr x \<and> (\<forall>u. x = Some u \<longrightarrow> u \<noteq> [])"
  using unpack_and_search_result
  by (auto simp: extract_missav_m3u8_from_packed_def Let_def split: option.splits)

lemma legacy_words_error:
  "legacy_words ws = Inl e \<Longrightarrow> e = IndexError \<or> (\<exists>m. e = ValueError m)"
  by (auto simp: legacy_words_def ebind_def index_def getitem_def Let_def split: if_splits option.splits sum.splits)

lemma legacy_try_error:
  "legacy_try w = Inl e \<Longrightarrow> e = IndexError \<or> (\<exists>m. e = ValueError m)"
  by (auto simp: legacy_try_def ebind_def getitem_def dest: legacy_words_error split: if_splits sum.splits)

lemma step3_result:
  "step3 w u = Inr (if truthy u then u else (case result (legacy_try w) of None \<Rightarrow> u | Some x \<Rightarrow> Some x))"
proof (cases "legacy_try w")
  case (Inl e)
  with legacy_try_error[OF Inl] show ?thesis
    by (auto simp: step3_def result_def)
next
  case (Inr x)
  then show ?thesis by (cases x) (simp_all add: step3_def result_def)
qed

lemma dict_only_result: "extract_missav_m3u8_from_dict_only w = Inr (result (extract_missav_m3u8_from_dict_only w))"
  by (simp add: dict_only_is_spec result_def split: option.splits)

lemma step2_result:
  "step2 w u = Inr (if truthy u then u else result (extract_missav_m3u8_from_dict_only w))"
  using dict_only_result[of w] by (simp add: step2_def)

lemma missav_m3u8_url_steps:
  "missav_m3u8_url w =
     Inr (step4 w
       (let u1 = result (extract_missav_m3u8_from_packed w);
            u2 = (if truthy u1 then u1 else result (extract_missav_m3u8_from_dict_only w))
        in if truthy u2 then u2 else (case result (legacy_try w) of None \<Rightarrow> u2 | Some x \<Rightarrow> Some x)))"
proof -
  obtain x where x: "extract_missav_m3u8_from_packed w = Inr x"
    using packed_result[of w] by blast
  show ?thesis
    by (simp add: missav_m3u8_url_def x ebind_def step2_result step3_result result_def Let_def)
qed

lemma missav_m3u8_url_chain:
  "\<exists>u. missav_m3u8_url w = Inr u \<and> truthy u = list_ex truthy (strategies w)
       \<and> (truthy u \<longrightarrow> first_result w = u)"
  unfolding missav_m3u8_url_steps
  by (cases "result (extract_missav_m3u8_from_packed w)";
      cases "result (extract_missav_m3u8_from_dict_only w)";
      cases "result (legacy_try w)"; cases "generic_scan w")
     (auto simp: step4_def strategies_def first_result_def Let_def)

lemma first_result_None: "\<not> list_ex truthy (strategies w) \<Longrightarrow> first_result w = None"
proof -
  assume "\<not> list_ex truthy (strategies w)"
  then have "List.find truthy (strategies w) = None"
    by (simp add: find_None_iff list_ex_iff)
  then show ?thesis by (simp add: first_result_def)
qed

lemma extract_first_result:
  "extract_missav_m3u8_and_title w p =
     (case first_result w of
        None \<Rightarrow> Inr None
      | Some u \<Rightarrow> ebind (missav_filename_from_url p)
                    (\<lambda>t. Inr (Some (u, t, fst (extract_og_meta w), snd (extract_og_meta w)))))"
proof -
  obtain u where u: "missav_m3u8_url w = Inr u" "truthy u = list_ex truthy (strategies w)"
      "truthy u \<longrightarrow> first_result w = u"
    using missav_m3u8_url_chain[of w] by blast
  show ?thesis
  proof (cases "truthy u")
    case True
    with u(3) obtain x where "u = Some x" "first_result w = Some x" by (cases u) auto
    with True u(1) show ?thesis by (simp add: extract_missav_m3u8_and_title_def ebind_def)
  next
    case False
    with u(2) have "first_result w = None" by (simp add: first_result_None)
    with False u(1) show ?thesis by (simp add: extract_missav_m3u8_and_title_def ebind_def)
  qed
qed

lemma packed_first:
  assumes "extract_missav_m3u8_from_packed w = Inr (Some u)"
  shows "first_result w = Some u"
proof -
  from packed_result[of w] assms have "u \<noteq> []" by auto
  with assms show ?thesis by (simp add: first_result_def strategies_def result_def)
qed

text \<open>
  C4. The extractor returns the first result that is not empty among the packed-eval, the
  dictionary-only, the legacy and the generic strategy, in this order; in particular, when
  the packed-eval and the dictionary-only strategy both succeed, the URL is the one of the
  packed-eval strategy.
\<close>

theorem strategies_in_priority_order:
  "extract_missav_m3u8_and_title w p =
     (case first_result w of
        None \<Rightarrow> Inr None
      | Some u \<Rightarrow> ebind (missav_filename_from_url p)
                    (\<lambda>t. Inr (Some (u, t, fst (extract_og_meta w), snd (extract_og_meta w))))) \<and>
   (extract_missav_m3u8_from_packed w = Inr (Some u1) \<longrightarrow>
    extract_missav_m3u8_from_dict_only w = Inr (Some u2) \<longrightarrow>
    first_result w = Some u1)"
  using extract_first_result[of w p] packed_first[of w u1] by simp

theorem strategies_in_priority_order_witness:
  "extract_missav_m3u8_from_packed BOTH_MARKERS = Inr (Some ''https://surrit.com/5-4-3-2-1/pl.m3u8'') \<and>
   extract_missav_m3u8_from_dict_only BOTH_MARKERS = Inr (Some ''https://surrit.com/5-4-3-2-1/playlist.m3u8'') \<and>
   manifest_of (extract_missav_m3u8_and_title BOTH_MARKERS ''https://missav.ai/dm1/naac-032'')
     = Some ''https://surrit.com/5-4-3-2-1/pl.m3u8''"
proof -
  have h1: "extract_missav_m3u8_from_packed BOTH_MARKERS = Inr (Some ''https://surrit.com/5-4-3-2-1/pl.m3u8'')"
    by code_simp
  have h2: "extract_missav_m3u8_from_dict_only BOTH_MARKERS = Inr (Some ''https://surrit.com/5-4-3-2-1/playlist.m3u8'')"
    by code_simp
  show ?thesis
    using h1 h2 strategies_in_priority_order[of BOTH_MARKERS "''https://missav.ai/dm1/naac-032''"
        "''https://surrit.com/5-4-3-2-1/pl.m3u8''" "''https://surrit.com/5-4-3-2-1/playlist.m3u8''"]
    by (simp add: title_naac ebind_def manifest_of_def)
qed

subsection \<open>Progress\<close>

lemma hook_report_bare:
  assumes "ev_status d = Some ''downloading''" "\<not> truthy_int (total_bytes d)" "no_percent d" "no_fragments d"
  shows "hook_report d = Some (0, if truthy (percent_str d) then Str (the (percent_str d)) else MsgDownloading)"
  using assms
  by (cases "fragment_count d"; cases "fragment_index d")
     (auto simp: hook_report_def no_percent_def no_fragments_def Let_def)

text \<open>
  C6, as the claim states it, fails: after a fragment event the stored percent is 50, and
  a following event without total size, percent string and fragment numbers sets it to 0.
\<close>

theorem progress_regression_counterexample:
  "progress_after 1 [FRAGMENT_EVENT] RUNNING_STATE = Some 50 \<and>
   progress_after 1 [FRAGMENT_EVENT, BARE_EVENT] RUNNING_STATE = Some 0"
  by code_simp

text \<open>
  C6, amended. The percent is computed from each event alone. On a \<open>downloading\<close> event
  with no known total size, no parsable percent string and no usable fragment pair, the
  percent reported to the callback is 0, and the stored percent of the job becomes 0
  whatever it was.
\<close>

theorem bare_event_resets_progress:
  assumes "ev_status d = Some ''downloading''" "\<not> truthy_int (total_bytes d)" "no_percent d" "no_fragments d"
    and "db st job_id = Some log"
  shows "hook_report d = Some (0, if truthy (percent_str d) then Str (the (percent_str d)) else MsgDownloading) \<and>
         progress_after job_id [d] st = Some 0"
  using hook_report_bare[OF assms(1-4)] assms(5)
  by (simp add: progress_after_def job_hook_def progress_hook_factory_def progress_hook_def
      progress_cb_def update_log_def)

theorem bare_event_resets_progress_witness:
  "db (fst (run_hooks (job_hook 1) 0 [FRAGMENT_EVENT] RUNNING_STATE)) 1
     = Some (PENDING_LOG\<lparr>log_status := ''downloading'', log_progress := 50, log_message := Some MsgDownloading\<rparr>) \<and>
   progress_after 1 [BARE_EVENT] (fst (run_hooks (job_hook 1) 0 [FRAGMENT_EVENT] RUNNING_STATE)) = Some 0"
proof -
  have h1: "ev_status BARE_EVENT = Some ''downloading''" by (simp add: BARE_EVENT_def)
  have h2: "\<not> truthy_int (total_bytes BARE_EVENT)" by (simp add: BARE_EVENT_def)
  have h3: "no_percent BARE_EVENT" by code_simp
  have h4: "no_fragments BARE_EVENT" by (simp add: no_fragments_def BARE_EVENT_def)
  have h5: "db (fst (run_hooks (job_hook 1) 0 [FRAGMENT_EVENT] RUNNING_STATE)) 1
     = Some (PENDING_LOG\<lparr>log_status := ''downloading'', log_progress := 50, log_message := Some MsgDownloading\<rparr>)"
    by code_simp
  show ?thesis
    using h5 bare_event_resets_progress[OF h1 h2 h3 h4 h5] by simp
qed

subsection \<open>Cancellation\<close>

lemma run_hooks_no_cancel:
  "snd (run_hooks (Some (progress_hook cb None)) i ds st) = None"
  by (induction ds arbitrary: i st)
     (auto simp: progress_hook_def split: option.splits prod.splits)







lemma update_log_db: "db st j = Some l \<Longrightarrow> db (update_log j f st) j = Some (f l)"
  by (simp add: update_log_def)






subsection \<open>Serving the result\<close>

text \<open>
  C8, as the claim states it, fails: after the result of a completed job is served, its
  entry is still in the table and a second request is served the same file.
\<close>

theorem served_twice_counterexample:
  "log_status (the (db DONE_STATE 1)) = ''done'' \<and>
   fst (download_result ENV_OK 1 7 DONE_STATE) = Inr SERVED \<and>
   job_results (snd (download_result ENV_OK 1 7 DONE_STATE)) 1 \<noteq> None \<and>
   fst (download_result ENV_OK 1 7 (snd (download_result ENV_OK 1 7 DONE_STATE))) = Inr SERVED"
  by code_simp

text \<open>
  C8, amended. Serving a result removes nothing from the table: a request for the same job
  gets the same answer again. The entries are removed at shutdown only, after which a
  request for a completed job reports that the result has expired.
\<close>

theorem result_kept_until_shutdown:
  "snd (download_result e j u st) = st \<and>
   fst (download_result e j u (snd (download_result e j u st))) = fst (download_result e j u st) \<and>
   (db st j = Some log \<longrightarrow> log_user_id log = u \<longrightarrow> log_status log = ''done'' \<longrightarrow>
      fst (download_result e j u (lifespan_shutdown st)) = Inl (HTTPException 404 MsgExpired))"
proof -
  have s: "snd (download_result e j u st) = st"
    by (simp add: download_result_def Let_def split: option.splits)
  show ?thesis
    unfolding s by (simp add: download_result_def lifespan_shutdown_def)
qed

theorem result_kept_until_shutdown_witness:
  "db DONE_STATE 1 = Some (PENDING_LOG\<lparr>log_title := Some ''v'', log_og_title := Some ''v'',
       log_status := ''done'', log_progress := 100, log_message := Some MsgDone,
       log_completed_at := Some 1000\<rparr>) \<and>
   fst (download_result ENV_OK 1 7 (lifespan_shutdown DONE_STATE)) = Inl (HTTPException 404 MsgExpired)"
proof -
  have h: "db DONE_STATE 1 = Some (PENDING_LOG\<lparr>log_title := Some ''v'', log_og_title := Some ''v'',
       log_status := ''done'', log_progress := 100, log_message := Some MsgDone,
       log_completed_at := Some 1000\<rparr>)"
    by code_simp
  show ?thesis
    using h result_kept_until_shutdown[of ENV_OK 1 7 DONE_STATE
        "PENDING_LOG\<lparr>log_title := Some ''v'', log_og_title := Some ''v'',
           log_status := ''done'', log_progress := 100, log_message := Some MsgDone,
           log_completed_at := Some 1000\<rparr>"]
    by (simp add: PENDING_LOG_def)
qed

end
